theory Spec2Isabelle
  imports Main "HOL-Library.Word" "HOL-Library.Char_ord" "HOL-Library.List_Lexorder"
    "HOL-Library.Multiset"
begin

section \<open>Data model\<close>

text \<open>
  The operation kind of a queued mutation is the string union
  \<^verbatim>\<open>'create' | 'update' | 'delete'\<close>; \<open>op_text\<close> is the string a value of that type
  denotes when it is interpolated or stored.
\<close>

datatype operation = Create | Update | Delete

fun op_text :: "operation \<Rightarrow> string" where
  "op_text Create = ''create''"
| "op_text Update = ''update''"
| "op_text Delete = ''delete''"

text \<open>\<^verbatim>\<open>OP_PRIORITY\<close> of syncService.ts.\<close>

fun OP_PRIORITY :: "operation \<Rightarrow> int" where
  "OP_PRIORITY Create = 1"
| "OP_PRIORITY Update = 2"
| "OP_PRIORITY Delete = 3"

text \<open>
  A \<^verbatim>\<open>Date\<close> is modelled by the number \<^verbatim>\<open>getTime()\<close> returns for it: milliseconds
  since the epoch. Every date the services write comes from \<^verbatim>\<open>new Date()\<close>, so invalid
  dates (whose time is NaN) are left out of the model.
\<close>

type_synonym timestamp = int

text \<open>
  The \<^verbatim>\<open>Task\<close> object. \<open>t_version\<close> is the optional \<^verbatim>\<open>version\<close> property that
  \<^verbatim>\<open>inferOperationType\<close> reads through a cast; \<open>None\<close> stands for an absent property.
\<close>

record task =
  t_id :: string
  t_title :: string
  t_description :: string
  t_completed :: bool
  t_created_at :: timestamp
  t_updated_at :: timestamp
  t_is_deleted :: bool
  t_sync_status :: string
  t_server_id :: "string option"
  t_last_synced_at :: "timestamp option"
  t_version :: "int option"

text \<open>
  A \<^verbatim>\<open>SyncQueueItem\<close>. The payload \<open>q_data\<close> is the task snapshot that every caller of
  \<^verbatim>\<open>addToSyncQueue\<close> passes; its JSON encoding in the table is not modelled.
\<close>

record sync_queue_item =
  q_id :: string
  q_task_id :: string
  q_operation :: operation
  q_data :: task
  q_created_at :: timestamp
  q_retry_count :: int
  q_error_message :: "string option"

section \<open>Checksum of a batch\<close>

text \<open>\<^verbatim>\<open>Number.prototype.toString()\<close> on an integer: decimal digits, a leading minus sign.\<close>

definition digit_char :: "nat \<Rightarrow> char" where
  "digit_char d = ''0123456789'' ! d"

fun nat_to_string :: "nat \<Rightarrow> string" where
  "nat_to_string n =
     (if n < 10 then [digit_char n] else nat_to_string (n div 10) @ [digit_char (n mod 10)])"

declare nat_to_string.simps [simp del]

definition int_to_string :: "int \<Rightarrow> string" where
  "int_to_string i = (if i < 0 then CHR ''-'' # nat_to_string (nat (- i)) else nat_to_string (nat i))"

text \<open>
  \<^verbatim>\<open>Date.prototype.toISOString()\<close>: the UTC calendar date and time of an instant, as
  \<^verbatim>\<open>YYYY-MM-DDTHH:mm:ss.sssZ\<close>, with the six-digit signed year form outside 0..9999.
\<close>

fun pad_left :: "nat \<Rightarrow> string \<Rightarrow> string" where
  "pad_left w s = replicate (w - length s) CHR ''0'' @ s"

definition civil_from_days :: "int \<Rightarrow> int \<times> int \<times> int" where
  "civil_from_days z0 =
     (let z = z0 + 719468;
          era = z div 146097;
          doe = z mod 146097;
          yoe = (doe - doe div 1460 + doe div 36524 - doe div 146096) div 365;
          doy = doe - (365 * yoe + yoe div 4 - yoe div 100);
          mp = (5 * doy + 2) div 153;
          d = doy - (153 * mp + 2) div 5 + 1;
          m = (if mp < 10 then mp + 3 else mp - 9);
          y = yoe + era * 400 + (if m \<le> 2 then 1 else 0)
      in (y, m, d))"

definition year_text :: "int \<Rightarrow> string" where
  "year_text y =
     (if 0 \<le> y \<and> y \<le> 9999 then pad_left 4 (nat_to_string (nat y))
      else if y < 0 then CHR ''-'' # pad_left 6 (nat_to_string (nat (- y)))
      else CHR ''+'' # pad_left 6 (nat_to_string (nat y)))"

definition toISOString :: "timestamp \<Rightarrow> string" where
  "toISOString t =
     (let (y, m, d) = civil_from_days (t div 86400000);
          ms = t mod 86400000;
          two = (\<lambda>n. pad_left 2 (nat_to_string (nat n)))
      in year_text y @ ''-'' @ two m @ ''-'' @ two d @ ''T''
         @ two (ms div 3600000) @ '':'' @ two (ms div 60000 mod 60) @ '':''
         @ two (ms div 1000 mod 60) @ ''.'' @ pad_left 3 (nat_to_string (nat (ms mod 1000)))
         @ ''Z'')"

text \<open>\<^verbatim>\<open>Array.prototype.join\<close> on strings.\<close>

fun join :: "string \<Rightarrow> string list \<Rightarrow> string" where
  "join sep [] = []"
| "join sep [s] = s"
| "join sep (s # t # ss) = s @ sep @ join sep (t # ss)"

text \<open>
  The conversion \<^verbatim>\<open>ToInt32\<close> that \<^verbatim>\<open>|\<close> and \<^verbatim>\<open><<\<close> apply to their operands and
  results: the value modulo \<open>2^32\<close>, read as two's complement.
\<close>

definition to_int32 :: "int \<Rightarrow> int" where
  "to_int32 x = sint (word_of_int x :: 32 word)"

text \<open>\<^verbatim>\<open>x << 5\<close>: both the operand and the shifted value are 32-bit integers.\<close>

definition shl5 :: "int \<Rightarrow> int" where
  "shl5 x = sint (push_bit 5 (word_of_int x :: 32 word))"

text \<open>\<^verbatim>\<open>charCodeAt\<close>: the code of a character.\<close>

definition charCode :: "char \<Rightarrow> int" where
  "charCode c = int (of_char c)"

text \<open>
  One round of the loop of \<^verbatim>\<open>calculateChecksum\<close>:
  \<^verbatim>\<open>hash = (hash << 5) - hash + chr; hash |= 0\<close>. The subtraction and the addition are on
  numbers, exact at this size; \<^verbatim>\<open>|= 0\<close> wraps the sum.
\<close>

definition hash_step :: "int \<Rightarrow> char \<Rightarrow> int" where
  "hash_step hash c = to_int32 (shl5 hash - hash + charCode c)"

definition checksum_line :: "sync_queue_item \<Rightarrow> string" where
  "checksum_line i = q_task_id i @ '':'' @ op_text (q_operation i) @ '':'' @ toISOString (q_created_at i)"

definition checksum_data :: "sync_queue_item list \<Rightarrow> string" where
  "checksum_data items = join ''|'' (map checksum_line items)"

definition calculateChecksum :: "sync_queue_item list \<Rightarrow> string" where
  "calculateChecksum items = int_to_string (foldl hash_step 0 (checksum_data items))"

text \<open>
  The hash as the specification words it: the polynomial rolling hash
  \<open>h \<mapsto> h * 31 + charCode\<close>, wrapped to a signed 32-bit integer after every character.
\<close>

definition rolling_hash :: "string \<Rightarrow> int" where
  "rolling_hash s = foldl (\<lambda>h c. to_int32 (h * 31 + charCode c)) 0 s"

section \<open>Conflict resolution\<close>

text \<open>
  \<^verbatim>\<open>inferOperationType\<close>. The test \<^verbatim>\<open>version && version <= 1\<close> holds for a version
  that is present, not zero (zero is falsy) and at most 1.
\<close>

definition inferOperationType :: "task \<Rightarrow> operation" where
  "inferOperationType task =
     (if t_is_deleted task then Delete
      else if (case t_version task of None \<Rightarrow> False | Some v \<Rightarrow> v \<noteq> 0 \<and> v \<le> 1)
              \<or> t_created_at task = t_updated_at task
      then Create
      else Update)"

definition resolveConflict :: "task \<Rightarrow> task \<Rightarrow> task" where
  "resolveConflict localTask serverTask =
     (let localUpdated = t_updated_at localTask;
          serverUpdated = t_updated_at serverTask
      in if localUpdated > serverUpdated then localTask
         else if serverUpdated > localUpdated then serverTask
         else (let localOp = inferOperationType localTask;
                   serverOp = inferOperationType serverTask
               in if OP_PRIORITY localOp \<ge> OP_PRIORITY serverOp then localTask else serverTask))"

text \<open>
  The operation kind as the claim words it: delete if the delete flag is set, else create
  if the two timestamps coincide or the version counter is at most 1, else update.
\<close>

definition claimed_kind :: "task \<Rightarrow> operation" where
  "claimed_kind task =
     (if t_is_deleted task then Delete
      else if t_created_at task = t_updated_at task
              \<or> (case t_version task of None \<Rightarrow> False | Some v \<Rightarrow> v \<le> 1)
      then Create
      else Update)"

text \<open>The operation kind with the version test as the code makes it.\<close>

definition amended_kind :: "task \<Rightarrow> operation" where
  "amended_kind task =
     (if t_is_deleted task then Delete
      else if t_created_at task = t_updated_at task
              \<or> (case t_version task of None \<Rightarrow> False | Some v \<Rightarrow> v \<noteq> 0 \<and> v \<le> 1)
      then Create
      else Update)"

definition claimed_winner :: "task \<Rightarrow> task \<Rightarrow> task" where
  "claimed_winner localTask remoteTask =
     (if t_updated_at localTask > t_updated_at remoteTask then localTask
      else if t_updated_at remoteTask > t_updated_at localTask then remoteTask
      else if OP_PRIORITY (claimed_kind localTask) \<ge> OP_PRIORITY (claimed_kind remoteTask)
      then localTask else remoteTask)"

section \<open>Canonical order of the queue\<close>

text \<open>The comparator handed to \<^verbatim>\<open>sort\<close> in \<^verbatim>\<open>sync\<close>.\<close>

definition compare_items :: "sync_queue_item \<Rightarrow> sync_queue_item \<Rightarrow> int" where
  "compare_items a b =
     (if q_task_id a \<noteq> q_task_id b then (if q_task_id a < q_task_id b then - 1 else 1)
      else (let ta = q_created_at a; tb = q_created_at b
            in if ta \<noteq> tb then ta - tb
               else OP_PRIORITY (q_operation a) - OP_PRIORITY (q_operation b)))"

text \<open>
  \<^verbatim>\<open>Array.prototype.sort\<close> with a comparator is a stable sort: an element moves in front
  of another only when the comparator is negative for the pair in that order.
\<close>

fun insert_by :: "('a \<Rightarrow> 'a \<Rightarrow> int) \<Rightarrow> 'a \<Rightarrow> 'a list \<Rightarrow> 'a list" where
  "insert_by cmp x [] = [x]"
| "insert_by cmp x (y # ys) = (if cmp x y \<le> 0 then x # y # ys else y # insert_by cmp x ys)"

definition sort_by :: "('a \<Rightarrow> 'a \<Rightarrow> int) \<Rightarrow> 'a list \<Rightarrow> 'a list" where
  "sort_by cmp xs = foldr (insert_by cmp) xs []"

definition canonical_sort :: "sync_queue_item list \<Rightarrow> sync_queue_item list" where
  "canonical_sort items = sort_by compare_items items"

text \<open>
  The order the specification names: task identity first, then the enqueue timestamp,
  then the operation priority.
\<close>

definition canonical_le :: "sync_queue_item \<Rightarrow> sync_queue_item \<Rightarrow> bool" where
  "canonical_le a b \<longleftrightarrow>
     q_task_id a < q_task_id b
     \<or> (q_task_id a = q_task_id b
        \<and> (q_created_at a < q_created_at b
           \<or> (q_created_at a = q_created_at b
              \<and> OP_PRIORITY (q_operation a) \<le> OP_PRIORITY (q_operation b))))"

section \<open>The local store\<close>

text \<open>
  The store holds three tables. A statement on \<^verbatim>\<open>tasks\<close> is modelled with its
  parameter array: placeholder \<open>i\<close> of the statement reads \<open>arg params i\<close>, and a placeholder
  that the array does not reach is NULL, as SQLite leaves a parameter that was not bound.
  A comparison with NULL selects no row. The statements on \<^verbatim>\<open>sync_queue\<close> and
  \<^verbatim>\<open>dead_letter_queue\<close> bind one value to every placeholder and are modelled by their
  effect on typed rows. The store itself is taken to be available: its calls do not throw.
\<close>

datatype sqlval = SqlNull | SqlText string | SqlInt int | SqlTime timestamp

definition arg :: "sqlval list \<Rightarrow> nat \<Rightarrow> sqlval" where
  "arg params i = (if i < length params then params ! i else SqlNull)"

definition sql_eq :: "sqlval \<Rightarrow> sqlval \<Rightarrow> bool" where
  "sql_eq a b \<longleftrightarrow> a \<noteq> SqlNull \<and> b \<noteq> SqlNull \<and> a = b"

definition COALESCE :: "sqlval \<Rightarrow> sqlval \<Rightarrow> sqlval" where
  "COALESCE a b = (if a = SqlNull then b else a)"

text \<open>A row of \<^verbatim>\<open>tasks\<close>; a timestamp column holds the text of an instant.\<close>

record task_row =
  r_id :: sqlval
  r_title :: sqlval
  r_description :: sqlval
  r_completed :: sqlval
  r_created_at :: sqlval
  r_updated_at :: sqlval
  r_is_deleted :: sqlval
  r_sync_status :: sqlval
  r_server_id :: sqlval
  r_last_synced_at :: sqlval
  r_version :: sqlval

text \<open>A row of \<^verbatim>\<open>dead_letter_queue\<close>, the table that \<^verbatim>\<open>initializeDLQ\<close> creates.\<close>

record dlq_row =
  d_id :: string
  d_task_id :: string
  d_operation :: operation
  d_data :: task
  d_error_message :: string
  d_failed_at :: timestamp

text \<open>The body of a request that \<^verbatim>\<open>processBatch\<close> posts.\<close>

record batch_request =
  req_items :: "sync_queue_item list"
  req_client_timestamp :: timestamp
  req_checksum :: string

text \<open>
  The state a call works on: the three tables, the requests posted so far, and \<open>tick\<close>,
  the number of readings taken from the environment so far.
\<close>

record world =
  tasks :: "task_row list"
  sync_queue :: "sync_queue_item list"
  dead_letter_queue :: "dlq_row list"
  posted :: "batch_request list"
  tick :: nat

text \<open>One outcome of a batch response (\<^verbatim>\<open>processed_items\<close>), as the batch endpoint builds it.\<close>

record processed_item =
  p_client_id :: string
  p_server_id :: "string option"
  p_status :: string
  p_resolved_data :: "task option"
  p_error :: "string option"

text \<open>What a failed call throws: an \<^verbatim>\<open>Error\<close> with its message, or another value.\<close>

datatype thrown = ErrorObj string | NonError

text \<open>What \<^verbatim>\<open>axios.post\<close> does: it throws, or returns the response's \<^verbatim>\<open>processed_items\<close>.\<close>

datatype post_outcome = PostThrows thrown | PostReturns "processed_item list"

text \<open>
  The environment of the services. Every reading is indexed by the tick at which it is
  taken: the clock (\<^verbatim>\<open>new Date()\<close>, \<^verbatim>\<open>CURRENT_TIMESTAMP\<close>), \<^verbatim>\<open>uuidv4()\<close>, the
  answer of the health endpoint and the outcome of a post. \<open>has_taskService\<close> says
  whether the \<^verbatim>\<open>SyncService\<close> was built with a \<^verbatim>\<open>TaskService\<close>.
\<close>

record env =
  clock :: "nat \<Rightarrow> timestamp"
  uuidv4 :: "nat \<Rightarrow> string"
  health :: "nat \<Rightarrow> bool"
  post :: "nat \<Rightarrow> post_outcome"
  has_taskService :: bool
  SYNC_BATCH_SIZE :: nat

definition bump :: "world \<Rightarrow> world" where
  "bump w = w\<lparr>tick := Suc (tick w)\<rparr>"

definition MAX_RETRY_COUNT :: int where
  "MAX_RETRY_COUNT = 3"

text \<open>The per-pass summary \<^verbatim>\<open>SyncResult\<close> and its error records.\<close>

record sync_error =
  e_task_id :: string
  e_operation :: string
  e_error :: string
  e_timestamp :: timestamp

record sync_result =
  success :: bool
  synced_items :: nat
  failed_items :: nat
  errors :: "sync_error list"

text \<open>What an error record says, apart from the time at which it was made.\<close>

definition error_fields :: "sync_error \<Rightarrow> string \<times> string \<times> string" where
  "error_fields x = (e_task_id x, e_operation x, e_error x)"

section \<open>SyncService\<close>

definition addToSyncQueue :: "env \<Rightarrow> string \<Rightarrow> operation \<Rightarrow> task \<Rightarrow> world \<Rightarrow> world" where
  "addToSyncQueue e taskId operation data w =
     (let item = \<lparr>q_id = uuidv4 e (tick w), q_task_id = taskId, q_operation = operation,
                  q_data = data, q_created_at = clock e (Suc (tick w)), q_retry_count = 0,
                  q_error_message = None\<rparr>
      in w\<lparr>sync_queue := sync_queue w @ [item], tick := Suc (Suc (tick w))\<rparr>)"

text \<open>\<^verbatim>\<open>x || null\<close> on an optional string: absent and empty strings give NULL.\<close>

definition text_or_null :: "string option \<Rightarrow> sqlval" where
  "text_or_null x = (case x of None \<Rightarrow> SqlNull | Some s \<Rightarrow> if s = [] then SqlNull else SqlText s)"

text \<open>
  \<^verbatim>\<open>updateSyncStatus\<close>: one \<^verbatim>\<open>UPDATE tasks\<close>, which reads the store's clock, then for the
  statuses \<^verbatim>\<open>synced\<close> and \<^verbatim>\<open>failed\<close> one \<^verbatim>\<open>DELETE FROM sync_queue WHERE task_id = ?\<close>.
\<close>

definition updateSyncStatus :: "env \<Rightarrow> string \<Rightarrow> string \<Rightarrow> task option \<Rightarrow> world \<Rightarrow> world" where
  "updateSyncStatus e taskId status serverData w =
     (let params = [SqlText status,
                    (case serverData of None \<Rightarrow> SqlNull | Some d \<Rightarrow> text_or_null (t_server_id d)),
                    SqlText status, SqlText taskId];
          w1 = w\<lparr>tasks := map (\<lambda>r. if sql_eq (r_id r) (arg params 3)
                                    then r\<lparr>r_sync_status := arg params 0,
                                           r_server_id := COALESCE (arg params 1) (r_server_id r),
                                           r_last_synced_at :=
                                             (if sql_eq (arg params 2) (SqlText ''synced'')
                                              then SqlTime (clock e (tick w))
                                              else r_last_synced_at r)\<rparr>
                                    else r) (tasks w),
                 tick := Suc (tick w)\<rparr>
      in if status = ''synced'' \<or> status = ''failed''
         then w1\<lparr>sync_queue := filter (\<lambda>i. q_task_id i \<noteq> taskId) (sync_queue w1)\<rparr>
         else w1)"

text \<open>
  \<^verbatim>\<open>handleSyncError\<close>; of the error only its message is used. The retry counter is read
  from the queue row with the item's id, and from the item when there is no such row.
\<close>

definition handleSyncError :: "env \<Rightarrow> sync_queue_item \<Rightarrow> string \<Rightarrow> world \<Rightarrow> world" where
  "handleSyncError e item message w =
     (let retryRow = find (\<lambda>r. q_id r = q_id item) (sync_queue w);
          currentRetry = (case retryRow of Some r \<Rightarrow> q_retry_count r | None \<Rightarrow> q_retry_count item);
          retryCount = currentRetry + 1
      in if retryCount \<ge> MAX_RETRY_COUNT
         then (let w1 = w\<lparr>dead_letter_queue := dead_letter_queue w @
                             [\<lparr>d_id = uuidv4 e (tick w), d_task_id = q_task_id item,
                               d_operation = q_operation item, d_data = q_data item,
                               d_error_message = message, d_failed_at = clock e (Suc (tick w))\<rparr>],
                           tick := Suc (Suc (tick w))\<rparr>;
                   w2 = w1\<lparr>sync_queue := filter (\<lambda>r. q_id r \<noteq> q_id item) (sync_queue w1)\<rparr>
               in updateSyncStatus e (q_task_id item) ''failed'' None w2)
         else (let w1 = w\<lparr>sync_queue := map (\<lambda>r. if q_id r = q_id item
                                                     then r\<lparr>q_retry_count := retryCount,
                                                            q_error_message := Some message\<rparr>
                                                     else r) (sync_queue w)\<rparr>
               in updateSyncStatus e (q_task_id item) ''error'' None w1))"

definition checkConnectivity :: "env \<Rightarrow> world \<Rightarrow> bool \<times> world" where
  "checkConnectivity e w = (health e (tick w), bump w)"

text \<open>
  \<^verbatim>\<open>processBatch\<close>: the request is built first, then the health endpoint is probed;
  only when it answers is the request posted. The result is what the call throws (\<open>Inl\<close>)
  or the outcomes it returns (\<open>Inr\<close>).
\<close>

definition processBatch :: "env \<Rightarrow> sync_queue_item list \<Rightarrow> world \<Rightarrow> (thrown + processed_item list) \<times> world" where
  "processBatch e items w =
     (let checksum = calculateChecksum items;
          request = \<lparr>req_items = items, req_client_timestamp = clock e (tick w), req_checksum = checksum\<rparr>;
          (online, w1) = checkConnectivity e (bump w)
      in if \<not> online then (Inl (ErrorObj ''Server not reachable''), w1)
         else (let w2 = (bump w1)\<lparr>posted := posted w1 @ [request]\<rparr>
               in case post e (tick w1) of
                    PostThrows err \<Rightarrow> (Inl err, w2)
                  | PostReturns processed_items \<Rightarrow> (Inr processed_items, w2)))"

text \<open>\<^verbatim>\<open>Array.from(new Set(xs))\<close>: the distinct elements, each at its first occurrence.\<close>

definition unique :: "string list \<Rightarrow> string list" where
  "unique xs = rev (remdups (rev xs))"

definition markTasksInProgress :: "string list \<Rightarrow> world \<Rightarrow> world" where
  "markTasksInProgress taskIds w =
     (if taskIds = [] then w
      else w\<lparr>tasks := map (\<lambda>r. if list_ex (\<lambda>p. sql_eq (r_id r) p) (map SqlText taskIds)
                                then r\<lparr>r_sync_status := SqlText ''in-progress''\<rparr>
                                else r) (tasks w)\<rparr>)"

section \<open>TaskService\<close>

text \<open>JavaScript truthiness of a column value, and the text and the date it holds.\<close>

fun truthy :: "sqlval \<Rightarrow> bool" where
  "truthy SqlNull = False"
| "truthy (SqlText s) = (s \<noteq> [])"
| "truthy (SqlInt n) = (n \<noteq> 0)"
| "truthy (SqlTime t) = True"

fun text_of :: "sqlval \<Rightarrow> string" where
  "text_of (SqlText s) = s"
| "text_of v = []"

fun date_of :: "sqlval \<Rightarrow> timestamp" where
  "date_of (SqlTime t) = t"
| "date_of (SqlInt n) = n"
| "date_of v = 0"

definition mapRowToTask :: "task_row \<Rightarrow> task" where
  "mapRowToTask row =
     \<lparr>t_id = text_of (r_id row),
      t_title = text_of (r_title row),
      t_description = (if truthy (r_description row) then text_of (r_description row) else []),
      t_completed = truthy (r_completed row),
      t_created_at = date_of (r_created_at row),
      t_updated_at = date_of (r_updated_at row),
      t_is_deleted = truthy (r_is_deleted row),
      t_sync_status = text_of (r_sync_status row),
      t_server_id = (if truthy (r_server_id row) then Some (text_of (r_server_id row)) else None),
      t_last_synced_at =
        (if truthy (r_last_synced_at row) then Some (date_of (r_last_synced_at row)) else None),
      t_version = None\<rparr>"

definition getTask :: "string \<Rightarrow> world \<Rightarrow> task option" where
  "getTask ident w =
     (case find (\<lambda>r. sql_eq (r_id r) (SqlText ident)) (tasks w) of
        None \<Rightarrow> None
      | Some row \<Rightarrow> if truthy (r_is_deleted row) then None else Some (mapRowToTask row))"

text \<open>
  \<^verbatim>\<open>Partial<Task>\<close>: each property is present (\<open>Some\<close>) or absent. \<open>merge\<close> is the
  spread \<^verbatim>\<open>{...existing, ...updates}\<close>.
\<close>

record task_updates =
  u_id :: "string option"
  u_title :: "string option"
  u_description :: "string option"
  u_completed :: "bool option"
  u_created_at :: "timestamp option"
  u_updated_at :: "timestamp option"
  u_is_deleted :: "bool option"
  u_sync_status :: "string option"
  u_server_id :: "string option"
  u_last_synced_at :: "timestamp option"
  u_version :: "int option"

definition no_updates :: task_updates where
  "no_updates = \<lparr>u_id = None, u_title = None, u_description = None, u_completed = None,
     u_created_at = None, u_updated_at = None, u_is_deleted = None, u_sync_status = None,
     u_server_id = None, u_last_synced_at = None, u_version = None\<rparr>"

fun or_else :: "'a option \<Rightarrow> 'a \<Rightarrow> 'a" where
  "or_else (Some x) d = x"
| "or_else None d = d"

fun or_else_opt :: "'a option \<Rightarrow> 'a option \<Rightarrow> 'a option" where
  "or_else_opt (Some x) d = Some x"
| "or_else_opt None d = d"

definition merge :: "task \<Rightarrow> task_updates \<Rightarrow> task" where
  "merge existing updates =
     \<lparr>t_id = or_else (u_id updates) (t_id existing),
      t_title = or_else (u_title updates) (t_title existing),
      t_description = or_else (u_description updates) (t_description existing),
      t_completed = or_else (u_completed updates) (t_completed existing),
      t_created_at = or_else (u_created_at updates) (t_created_at existing),
      t_updated_at = or_else (u_updated_at updates) (t_updated_at existing),
      t_is_deleted = or_else (u_is_deleted updates) (t_is_deleted existing),
      t_sync_status = or_else (u_sync_status updates) (t_sync_status existing),
      t_server_id = or_else_opt (u_server_id updates) (t_server_id existing),
      t_last_synced_at = or_else_opt (u_last_synced_at updates) (t_last_synced_at existing),
      t_version = or_else_opt (u_version updates) (t_version existing)\<rparr>"

text \<open>A whole \<^verbatim>\<open>Task\<close> passed where a \<^verbatim>\<open>Partial<Task>\<close> is expected.\<close>

definition as_updates :: "task \<Rightarrow> task_updates" where
  "as_updates t =
     \<lparr>u_id = Some (t_id t), u_title = Some (t_title t), u_description = Some (t_description t),
      u_completed = Some (t_completed t), u_created_at = Some (t_created_at t),
      u_updated_at = Some (t_updated_at t), u_is_deleted = Some (t_is_deleted t),
      u_sync_status = Some (t_sync_status t), u_server_id = t_server_id t,
      u_last_synced_at = t_last_synced_at t, u_version = t_version t\<rparr>"

definition flag :: "bool \<Rightarrow> sqlval" where
  "flag b = SqlInt (if b then 1 else 0)"

text \<open>
  \<^verbatim>\<open>createTask\<close>: ten columns, ten placeholders, ten values. The \<^verbatim>\<open>version\<close> column is
  not written; its default is not part of the sources and is NULL here.
\<close>

definition createTask :: "env \<Rightarrow> task_updates \<Rightarrow> world \<Rightarrow> task \<times> world" where
  "createTask e taskData w =
     (let now = clock e (tick w);
          task = \<lparr>t_id = uuidv4 e (Suc (tick w)),
                  t_title = (case u_title taskData of None \<Rightarrow> ''Untitled Task''
                             | Some s \<Rightarrow> if s = [] then ''Untitled Task'' else s),
                  t_description = or_else (u_description taskData) [],
                  t_completed = or_else (u_completed taskData) False,
                  t_created_at = now, t_updated_at = now, t_is_deleted = False,
                  t_sync_status = ''pending'', t_server_id = None, t_last_synced_at = None,
                  t_version = None\<rparr>;
          params = [SqlText (t_id task), SqlText (t_title task), SqlText (t_description task),
                    flag (t_completed task), SqlTime (t_created_at task), SqlTime (t_updated_at task),
                    flag (t_is_deleted task), SqlText (t_sync_status task), SqlNull, SqlNull];
          row = \<lparr>r_id = arg params 0, r_title = arg params 1, r_description = arg params 2,
                 r_completed = arg params 3, r_created_at = arg params 4, r_updated_at = arg params 5,
                 r_is_deleted = arg params 6, r_sync_status = arg params 7, r_server_id = arg params 8,
                 r_last_synced_at = arg params 9, r_version = SqlNull\<rparr>;
          w1 = w\<lparr>tasks := tasks w @ [row], tick := Suc (Suc (tick w))\<rparr>
      in (task, addToSyncQueue e (t_id task) Create task w1))"

text \<open>
  \<^verbatim>\<open>updateTask\<close>. Its statement
  \<^verbatim>\<open>UPDATE tasks SET title = ?, description = ?, completed = ?, updated_at = ?, is_deleted = ?, sync_status = ? WHERE id = ?\<close>
  has seven placeholders, numbered 0 to 6 here; the parameter array holds the six values
  of the \<^verbatim>\<open>SET\<close> clause and ends there.
\<close>

definition updateTask :: "env \<Rightarrow> string \<Rightarrow> task_updates \<Rightarrow> world \<Rightarrow> task option \<times> world" where
  "updateTask e ident updates w =
     (case getTask ident w of
        None \<Rightarrow> (None, w)
      | Some existing \<Rightarrow>
          (let updated = (merge existing updates)\<lparr>t_updated_at := clock e (tick w),
                                                  t_sync_status := ''pending''\<rparr>;
               params = [SqlText (t_title updated), SqlText (t_description updated),
                         flag (t_completed updated), SqlTime (t_updated_at updated),
                         flag (t_is_deleted updated), SqlText (t_sync_status updated)];
               w1 = w\<lparr>tasks := map (\<lambda>r. if sql_eq (r_id r) (arg params 6)
                                         then r\<lparr>r_title := arg params 0, r_description := arg params 1,
                                                r_completed := arg params 2, r_updated_at := arg params 3,
                                                r_is_deleted := arg params 4,
                                                r_sync_status := arg params 5\<rparr>
                                         else r) (tasks w),
                      tick := Suc (tick w)\<rparr>
           in (Some updated, addToSyncQueue e (t_id updated) Update updated w1)))"

text \<open>\<^verbatim>\<open>version + 1\<close> in SQL: NULL stays NULL.\<close>

fun sql_succ :: "sqlval \<Rightarrow> sqlval" where
  "sql_succ (SqlInt n) = SqlInt (n + 1)"
| "sql_succ v = SqlNull"

text \<open>
  \<^verbatim>\<open>deleteTask\<close>:
  \<^verbatim>\<open>UPDATE tasks SET is_deleted = 1, updated_at = ?, sync_status = 'pending', version = version + 1 WHERE id = ?\<close>
  with the two values \<^verbatim>\<open>[updatedAt, id]\<close>.
\<close>

definition deleteTask :: "env \<Rightarrow> string \<Rightarrow> world \<Rightarrow> bool \<times> world" where
  "deleteTask e ident w =
     (case getTask ident w of
        None \<Rightarrow> (False, w)
      | Some existing \<Rightarrow>
          (let updatedAt = clock e (tick w);
               params = [SqlTime updatedAt, SqlText ident];
               w1 = w\<lparr>tasks := map (\<lambda>r. if sql_eq (r_id r) (arg params 1)
                                         then r\<lparr>r_is_deleted := SqlInt 1, r_updated_at := arg params 0,
                                                r_sync_status := SqlText ''pending'',
                                                r_version := sql_succ (r_version r)\<rparr>
                                         else r) (tasks w),
                      tick := Suc (tick w)\<rparr>
           in (True, addToSyncQueue e ident Delete
                       (existing\<lparr>t_is_deleted := True, t_updated_at := updatedAt\<rparr>) w1)))"

section \<open>The sync pass\<close>

text \<open>
  The statement \<^verbatim>\<open>UPDATE tasks SET sync_status = 'error' WHERE id = ?\<close> that the pass
  runs for an outcome it counts as failed.
\<close>

definition mark_error :: "string \<Rightarrow> world \<Rightarrow> world" where
  "mark_error client_id w =
     w\<lparr>tasks := map (\<lambda>r. if sql_eq (r_id r) (arg [SqlText client_id] 0)
                          then r\<lparr>r_sync_status := SqlText ''error''\<rparr> else r) (tasks w)\<rparr>"

definition record_failure :: "env \<Rightarrow> string \<Rightarrow> string \<Rightarrow> string \<Rightarrow> world \<Rightarrow> sync_result \<Rightarrow> sync_result" where
  "record_failure e task_id operation message w result =
     result\<lparr>failed_items := Suc (failed_items result),
            errors := errors result @
              [\<lparr>e_task_id = task_id, e_operation = operation, e_error = message,
                e_timestamp = clock e (tick w)\<rparr>]\<rparr>"

text \<open>
  \<^verbatim>\<open>this.taskService?.getTask(id)\<close>: without a \<^verbatim>\<open>TaskService\<close> there is no local record.
\<close>

definition local_lookup :: "env \<Rightarrow> string \<Rightarrow> world \<Rightarrow> task option" where
  "local_lookup e ident w = (if has_taskService e then getTask ident w else None)"

text \<open>The body of the loop over \<^verbatim>\<open>response.processed_items\<close>.\<close>

definition process_item :: "env \<Rightarrow> world \<times> sync_result \<Rightarrow> processed_item \<Rightarrow> world \<times> sync_result" where
  "process_item e st res =
     (let (w, result) = st in
      if p_status res = ''success''
      then (updateSyncStatus e (p_client_id res) ''synced'' (p_resolved_data res) w,
            result\<lparr>synced_items := Suc (synced_items result)\<rparr>)
      else if p_status res = ''conflict'' \<and> p_resolved_data res \<noteq> None
      then (case local_lookup e (p_client_id res) w of
              Some localTask \<Rightarrow>
                (let resolved = resolveConflict localTask (case p_resolved_data res of Some d \<Rightarrow> d | None \<Rightarrow> localTask);
                     w1 = snd (updateTask e (p_client_id res) (as_updates resolved) w);
                     w2 = updateSyncStatus e (p_client_id res) ''synced'' (Some resolved) w1
                 in (w2, result\<lparr>synced_items := Suc (synced_items result)\<rparr>))
            | None \<Rightarrow>
                (mark_error (p_client_id res) (bump w),
                 (record_failure e (p_client_id res) ''unknown'' ''Conflict: local task missing'' w result)
                   \<lparr>success := False\<rparr>))
      else (mark_error (p_client_id res) (bump w),
            (record_failure e (p_client_id res) ''unknown''
               (case p_error res of None \<Rightarrow> ''Unknown error''
                | Some m \<Rightarrow> if m = [] then ''Unknown error'' else m) w result)
              \<lparr>success := False\<rparr>))"

text \<open>The body of the loop of the batch's \<^verbatim>\<open>catch\<close> block, for one item of the batch.\<close>

definition fail_item :: "env \<Rightarrow> string \<Rightarrow> world \<times> sync_result \<Rightarrow> sync_queue_item \<Rightarrow> world \<times> sync_result" where
  "fail_item e errorMessage st item =
     (let (w, result) = st;
          w1 = handleSyncError e item errorMessage w
      in (bump w1, record_failure e (q_task_id item) (op_text (q_operation item)) errorMessage w1 result))"

definition error_message :: "thrown \<Rightarrow> string" where
  "error_message err = (case err of ErrorObj m \<Rightarrow> m | NonError \<Rightarrow> ''Unknown error'')"

text \<open>One round of the loop over the batches.\<close>

definition sync_batch :: "env \<Rightarrow> world \<times> sync_result \<Rightarrow> sync_queue_item list \<Rightarrow> world \<times> sync_result" where
  "sync_batch e st batch =
     (let (w, result) = st;
          taskIds = unique (map q_task_id batch);
          w1 = markTasksInProgress taskIds w;
          (r, w2) = processBatch e batch w1
      in case r of
           Inr processed_items \<Rightarrow> foldl (process_item e) (w2, result) processed_items
         | Inl err \<Rightarrow>
             (let (w3, result3) = foldl (fail_item e (error_message err)) (w2, result) batch
              in (w3, result3\<lparr>success := False\<rparr>)))"

text \<open>
  The slices \<^verbatim>\<open>sorted.slice(i, i + SYNC_BATCH_SIZE)\<close> for
  \<^verbatim>\<open>i = 0, SYNC_BATCH_SIZE, 2 * SYNC_BATCH_SIZE, ...\<close> below the length.
\<close>

function batches :: "nat \<Rightarrow> 'a list \<Rightarrow> 'a list list" where
  "batches n xs = (if n = 0 \<or> xs = [] then [] else take n xs # batches n (drop n xs))"
  by pat_completeness auto
termination
  by (relation "measure (\<lambda>(n, xs). length xs)") auto

declare batches.simps [simp del]

definition empty_result :: sync_result where
  "empty_result = \<lparr>success = True, synced_items = 0, failed_items = 0, errors = []\<rparr>"

text \<open>
  \<^verbatim>\<open>sync\<close>. The queue is read in the order of \<^verbatim>\<open>created_at\<close>, sorted again with the
  comparator and cut into batches. With a batch size of 0 and a queue that is not empty
  the loop variable does not advance and the pass does not return: \<open>None\<close>.
\<close>

definition sync :: "env \<Rightarrow> world \<Rightarrow> (world \<times> sync_result) option" where
  "sync e w =
     (let items = sort_key q_created_at (sync_queue w);
          sorted = canonical_sort items
      in if SYNC_BATCH_SIZE e = 0 \<and> sorted \<noteq> [] then None
         else Some (foldl (sync_batch e) (w, empty_result) (batches (SYNC_BATCH_SIZE e) sorted)))"

text \<open>The result only grows: errors are appended, and a pass marked unsuccessful stays so.\<close>

definition extends :: "sync_result \<Rightarrow> sync_result \<Rightarrow> bool" where
  "extends old new \<longleftrightarrow> (\<exists>more. errors new = errors old @ more) \<and> (success new \<longrightarrow> success old)"

text \<open>A task is settled when its rows are \<open>synced\<close> and the queue holds no entry of it.\<close>

definition settled :: "string \<Rightarrow> world \<Rightarrow> bool" where
  "settled c w \<longleftrightarrow>
     (\<forall>r \<in> set (tasks w). r_id r = SqlText c \<longrightarrow> r_sync_status r = SqlText ''synced'')
     \<and> (\<forall>i \<in> set (sync_queue w). q_task_id i \<noteq> c)"

section \<open>Example inputs\<close>

text \<open>A stored task, the task object read from it, and queue entries for it.\<close>

definition row_a :: task_row where
  "row_a = \<lparr>r_id = SqlText ''a'', r_title = SqlText ''Buy milk'', r_description = SqlText [],
     r_completed = SqlInt 0, r_created_at = SqlTime 100, r_updated_at = SqlTime 100,
     r_is_deleted = SqlInt 0, r_sync_status = SqlText ''pending'', r_server_id = SqlNull,
     r_last_synced_at = SqlNull, r_version = SqlNull\<rparr>"

definition task_a :: task where
  "task_a = \<lparr>t_id = ''a'', t_title = ''Buy milk'', t_description = [], t_completed = False,
     t_created_at = 100, t_updated_at = 100, t_is_deleted = False, t_sync_status = ''pending'',
     t_server_id = None, t_last_synced_at = None, t_version = None\<rparr>"

definition entry_create :: sync_queue_item where
  "entry_create = \<lparr>q_id = ''e1'', q_task_id = ''a'', q_operation = Create, q_data = task_a,
     q_created_at = 100, q_retry_count = 0, q_error_message = None\<rparr>"

definition entry_update :: sync_queue_item where
  "entry_update = \<lparr>q_id = ''e2'', q_task_id = ''a'', q_operation = Update, q_data = task_a,
     q_created_at = 200, q_retry_count = 0, q_error_message = None\<rparr>"

text \<open>Two entries whose task identities are \<open>Aa\<close> and \<open>BB\<close>, enqueued at the same instant.\<close>

definition item_Aa :: sync_queue_item where
  "item_Aa = \<lparr>q_id = ''e1'', q_task_id = ''Aa'', q_operation = Create, q_data = task_a,
     q_created_at = 0, q_retry_count = 0, q_error_message = None\<rparr>"

definition item_BB :: sync_queue_item where
  "item_BB = \<lparr>q_id = ''e2'', q_task_id = ''BB'', q_operation = Create, q_data = task_a,
     q_created_at = 0, q_retry_count = 0, q_error_message = None\<rparr>"

text \<open>
  Two versions of a task with the same \<open>updated_at\<close>: a local one whose timestamps
  coincide, and a remote one that was created earlier and carries the version counter 0.
\<close>

definition local_fresh :: task where
  "local_fresh = \<lparr>t_id = ''a'', t_title = ''local'', t_description = [], t_completed = False,
     t_created_at = 100, t_updated_at = 100, t_is_deleted = False, t_sync_status = ''pending'',
     t_server_id = None, t_last_synced_at = None, t_version = None\<rparr>"

definition remote_v0 :: task where
  "remote_v0 = \<lparr>t_id = ''a'', t_title = ''remote'', t_description = [], t_completed = False,
     t_created_at = 50, t_updated_at = 100, t_is_deleted = False, t_sync_status = ''synced'',
     t_server_id = None, t_last_synced_at = None, t_version = Some 0\<rparr>"

text \<open>Two plain updates with the same \<open>updated_at\<close>, and a later remote version.\<close>

definition local_edit :: task where
  "local_edit = \<lparr>t_id = ''a'', t_title = ''local'', t_description = [], t_completed = False,
     t_created_at = 50, t_updated_at = 100, t_is_deleted = False, t_sync_status = ''pending'',
     t_server_id = None, t_last_synced_at = None, t_version = None\<rparr>"

definition remote_edit :: task where
  "remote_edit = \<lparr>t_id = ''a'', t_title = ''remote'', t_description = [], t_completed = True,
     t_created_at = 50, t_updated_at = 100, t_is_deleted = False, t_sync_status = ''synced'',
     t_server_id = Some ''srv_7'', t_last_synced_at = None, t_version = Some 4\<rparr>"

definition remote_later :: task where
  "remote_later = remote_edit\<lparr>t_updated_at := 150\<rparr>"


text \<open>
  Environments: one whose remote never answers the health probe, one whose remote answers
  the probe and fails every post with an error, and one whose remote accepts every post
  with no outcomes. Clock readings and generated identifiers depend on the tick only.
\<close>

definition env_down :: env where
  "env_down = \<lparr>clock = (\<lambda>n. 1000 + int n), uuidv4 = (\<lambda>n. replicate (Suc n) CHR ''u''),
     health = (\<lambda>n. False), post = (\<lambda>n. PostReturns []), has_taskService = True,
     SYNC_BATCH_SIZE = 10\<rparr>"

definition env_throw :: env where
  "env_throw = env_down\<lparr>health := (\<lambda>n. True), post := (\<lambda>n. PostThrows (ErrorObj ''timeout''))\<rparr>"

definition env_up :: env where
  "env_up = env_down\<lparr>health := (\<lambda>n. True)\<rparr>"


definition world_two :: world where
  "world_two = \<lparr>tasks = [row_a], sync_queue = [entry_create, entry_update],
     dead_letter_queue = [], posted = [], tick = 0\<rparr>"



text \<open>
  The task \<open>a\<close> while its batch is in flight, and the outcome that the batch endpoint
  of routes/sync.ts builds for it: the identity that the remote assigned is the outcome's
  \<open>server_id\<close> and the \<open>id\<close> of its \<open>resolved_data\<close>, which has no \<open>server_id\<close>.
  The properties that the endpoint does not send have default values here; the pass
  does not read them.
\<close>

definition world_in_flight :: world where
  "world_in_flight = \<lparr>tasks = [row_a\<lparr>r_sync_status := SqlText ''in-progress''\<rparr>],
     sync_queue = [entry_create], dead_letter_queue = [], posted = [], tick = 0\<rparr>"

definition stub_data :: task where
  "stub_data = \<lparr>t_id = ''srv_42'', t_title = ''Buy milk'', t_description = [],
     t_completed = False, t_created_at = 100, t_updated_at = 500, t_is_deleted = False,
     t_sync_status = [], t_server_id = None, t_last_synced_at = None, t_version = None\<rparr>"

definition stub_outcome :: processed_item where
  "stub_outcome = \<lparr>p_client_id = ''a'', p_server_id = Some ''srv_42'', p_status = ''success'',
     p_resolved_data = Some stub_data, p_error = None\<rparr>"

text \<open>A conflict outcome for a task that the store does not hold.\<close>

definition ghost_conflict :: processed_item where
  "ghost_conflict = \<lparr>p_client_id = ''ghost'', p_server_id = None, p_status = ''conflict'',
     p_resolved_data = Some remote_edit, p_error = None\<rparr>"

text \<open>The task \<open>a\<close> after a successful pass, and an edit of its title.\<close>

definition world_synced :: world where
  "world_synced = \<lparr>tasks = [row_a\<lparr>r_sync_status := SqlText ''synced'',
                                   r_last_synced_at := SqlTime 300\<rparr>],
     sync_queue = [], dead_letter_queue = [], posted = [], tick = 0\<rparr>"

definition title_edit :: task_updates where
  "title_edit = no_updates\<lparr>u_title := Some ''Buy oat milk''\<rparr>"

section \<open>The checksum is the rolling hash\<close>

lemma to_int32_cong: "(word_of_int a :: 32 word) = word_of_int b \<Longrightarrow> to_int32 a = to_int32 b"
  by (simp add: to_int32_def)

lemma word_of_to_int32: "(word_of_int (to_int32 x) :: 32 word) = word_of_int x"
  by (simp add: to_int32_def)

lemma word_of_shl5: "(word_of_int (shl5 x) :: 32 word) = word_of_int x * 32"
  by (simp add: shl5_def push_bit_eq_mult)

lemma hash_step_rolling: "hash_step h c = to_int32 (h * 31 + charCode c)"
  unfolding hash_step_def
  by (rule to_int32_cong) (simp add: word_of_shl5 wi_hom_syms)

lemma foldl_hash_step_rolling:
  "foldl hash_step h s = foldl (\<lambda>h c. to_int32 (h * 31 + charCode c)) h s"
  by (induction s arbitrary: h) (simp_all add: hash_step_rolling)

lemma to_int32_range: "- (2 ^ 31) \<le> to_int32 x \<and> to_int32 x < 2 ^ 31"
  unfolding to_int32_def using sint_range_size [of "word_of_int x :: 32 word"]
  by (simp add: word_size)

lemma rolling_hash_snoc: "rolling_hash (s @ [c]) = to_int32 (rolling_hash s * 31 + charCode c)"
  by (simp add: rolling_hash_def)

lemma rolling_hash_range: "- (2 ^ 31) \<le> rolling_hash s \<and> rolling_hash s < 2 ^ 31"
proof (cases s rule: rev_cases)
  case Nil
  then show ?thesis by (simp add: rolling_hash_def)
next
  case (snoc ys y)
  then show ?thesis using to_int32_range by (simp add: rolling_hash_snoc)
qed

text \<open>
  Claim C7, as amended. For every ordered list of batch items, the checksum is the
  base-10 string of the rolling hash \<open>h \<mapsto> h * 31 + charCode\<close>, wrapped to a signed
  32-bit integer, of the \<open>|\<close>-joined strings \<open>taskId:operation:isoTimestamp\<close>, one per item
  in batch order; the hash lies in the signed 32-bit range. The checksum is a function of
  the ordered batch, so the same batch always yields the same string. Nothing is said
  about reordered batches.
\<close>

theorem checksum_is_rolling_hash:
  "calculateChecksum items
     = int_to_string (rolling_hash (join ''|''
         (map (\<lambda>i. q_task_id i @ '':'' @ op_text (q_operation i) @ '':'' @ toISOString (q_created_at i))
              items)))
   \<and> - (2 ^ 31) \<le> rolling_hash (checksum_data items)
   \<and> rolling_hash (checksum_data items) < 2 ^ 31"
proof -
  have eq: "checksum_line
      = (\<lambda>i. q_task_id i @ '':'' @ op_text (q_operation i) @ '':'' @ toISOString (q_created_at i))"
    by (rule ext) (simp add: checksum_line_def)
  have "calculateChecksum items = int_to_string (rolling_hash (checksum_data items))"
    by (simp add: calculateChecksum_def rolling_hash_def foldl_hash_step_rolling)
  then show ?thesis
    using rolling_hash_range [of "checksum_data items"]
    unfolding checksum_data_def eq by simp
qed

lemma word_of_hash_step:
  "(word_of_int (hash_step h c) :: 32 word) = word_of_int h * 31 + word_of_int (charCode c)"
  by (simp add: hash_step_rolling word_of_to_int32 wi_hom_syms)

lemma hash_Aa_BB:
  "hash_step (hash_step h CHR ''A'') CHR ''a'' = hash_step (hash_step h CHR ''B'') CHR ''B''"
proof -
  have "(word_of_int (hash_step h CHR ''A'') :: 32 word) * 31 + word_of_int (charCode CHR ''a'')
      = word_of_int (hash_step h CHR ''B'') * 31 + word_of_int (charCode CHR ''B'')"
    by (simp add: word_of_hash_step charCode_def algebra_simps)
  then show ?thesis
    unfolding hash_step_rolling [of "hash_step h CHR ''A''"]
      hash_step_rolling [of "hash_step h CHR ''B''"]
    by (intro to_int32_cong) (simp add: wi_hom_syms)
qed

lemma foldl_Aa_BB: "foldl hash_step h (''Aa'' @ s) = foldl hash_step h (''BB'' @ s)"
  by (simp add: hash_Aa_BB)

text \<open>
  Claim C7 as stated fails: the two entries \<open>item_Aa\<close> and \<open>item_BB\<close> differ, and the
  batch holding them in one order has the same checksum as the batch holding them in the
  other order. The strings \<open>Aa\<close> and \<open>BB\<close> contribute the same amount to the hash
  wherever they stand.
\<close>

theorem checksum_reordering_counterexample:
  "mset [item_Aa, item_BB] = mset [item_BB, item_Aa]
   \<and> [item_Aa, item_BB] \<noteq> [item_BB, item_Aa]
   \<and> item_Aa \<noteq> item_BB
   \<and> calculateChecksum [item_Aa, item_BB] = calculateChecksum [item_BB, item_Aa]"
proof -
  define r where "r = '':create:'' @ toISOString 0"
  have a: "checksum_data [item_Aa, item_BB] = ''Aa'' @ (r @ ''|'') @ ''BB'' @ r"
    by (simp add: checksum_data_def checksum_line_def item_Aa_def item_BB_def r_def)
  have b: "checksum_data [item_BB, item_Aa] = ''BB'' @ (r @ ''|'') @ ''Aa'' @ r"
    by (simp add: checksum_data_def checksum_line_def item_Aa_def item_BB_def r_def)
  have "foldl hash_step 0 (''Aa'' @ (r @ ''|'') @ ''BB'' @ r)
      = foldl hash_step 0 (''BB'' @ (r @ ''|'') @ ''Aa'' @ r)"
    unfolding foldl_Aa_BB [of 0] foldl_append [of hash_step _ "''BB''"]
      foldl_append [of hash_step _ "r @ ''|''"] foldl_append [of hash_step _ "''Aa''"]
    by (simp add: hash_Aa_BB)
  then have "calculateChecksum [item_Aa, item_BB] = calculateChecksum [item_BB, item_Aa]"
    by (simp only: calculateChecksum_def a b)
  moreover have "item_Aa \<noteq> item_BB" by (simp add: item_Aa_def item_BB_def)
  ultimately show ?thesis by (simp add: add.commute)
qed

section \<open>Conflict resolution\<close>

lemma inferOperationType_amended: "inferOperationType t = amended_kind t"
  by (auto simp: inferOperationType_def amended_kind_def split: option.splits)

text \<open>
  Claim C2, as amended. For every pair of task versions (local, remote), \<open>resolveConflict\<close>
  returns the version whose \<open>updated_at\<close> is strictly later; on an exact tie it returns
  the version whose inferred operation kind has priority in the order
  create(1) < update(2) < delete(3), the local version winning ties of equal priority. The
  inferred kind is delete if the delete flag is set, else create if \<open>created_at\<close> equals
  \<open>updated_at\<close> or the version counter is present, not zero and at most 1, else update.
  In particular, when both versions are plain updates with equal \<open>updated_at\<close>, the local
  version wins.
\<close>

theorem resolveConflict_rule:
  "inferOperationType localTask = amended_kind localTask
   \<and> inferOperationType serverTask = amended_kind serverTask
   \<and> (t_updated_at localTask > t_updated_at serverTask
        \<longrightarrow> resolveConflict localTask serverTask = localTask)
   \<and> (t_updated_at serverTask > t_updated_at localTask
        \<longrightarrow> resolveConflict localTask serverTask = serverTask)
   \<and> (t_updated_at localTask = t_updated_at serverTask
        \<and> OP_PRIORITY (amended_kind localTask) \<ge> OP_PRIORITY (amended_kind serverTask)
        \<longrightarrow> resolveConflict localTask serverTask = localTask)
   \<and> (t_updated_at localTask = t_updated_at serverTask
        \<and> OP_PRIORITY (amended_kind localTask) < OP_PRIORITY (amended_kind serverTask)
        \<longrightarrow> resolveConflict localTask serverTask = serverTask)
   \<and> (t_updated_at localTask = t_updated_at serverTask
        \<and> amended_kind localTask = Update \<and> amended_kind serverTask = Update
        \<longrightarrow> resolveConflict localTask serverTask = localTask)"
  by (simp add: resolveConflict_def Let_def inferOperationType_amended)

theorem resolveConflict_rule_witness:
  "t_updated_at local_edit = t_updated_at remote_edit
   \<and> amended_kind local_edit = Update \<and> amended_kind remote_edit = Update
   \<and> resolveConflict local_edit remote_edit = local_edit
   \<and> t_updated_at remote_later > t_updated_at local_edit
   \<and> resolveConflict local_edit remote_later = remote_later
   \<and> t_updated_at local_fresh = t_updated_at remote_v0
   \<and> OP_PRIORITY (amended_kind local_fresh) < OP_PRIORITY (amended_kind remote_v0)
   \<and> resolveConflict local_fresh remote_v0 = remote_v0"
  using resolveConflict_rule [of local_edit remote_edit]
    resolveConflict_rule [of local_edit remote_later]
    resolveConflict_rule [of local_fresh remote_v0]
  by (simp add: amended_kind_def local_edit_def remote_edit_def remote_later_def
      local_fresh_def remote_v0_def)

text \<open>
  Claim C2 as stated fails. The remote version \<open>remote_v0\<close> carries the version counter
  0, which is at most 1, and different timestamps: the claim makes it a create, of the
  same priority as the local create, so that the local version would win. The code takes
  a counter of 0 for no counter, infers an update and returns the remote version.
\<close>

theorem resolveConflict_version_counterexample:
  "t_updated_at local_fresh = t_updated_at remote_v0
   \<and> resolveConflict local_fresh remote_v0 = remote_v0
   \<and> claimed_winner local_fresh remote_v0 = local_fresh
   \<and> local_fresh \<noteq> remote_v0"
  by (simp add: resolveConflict_def claimed_winner_def inferOperationType_def claimed_kind_def
      local_fresh_def remote_v0_def)

section \<open>The canonical order\<close>

lemma compare_le0: "compare_items a b \<le> 0 \<longleftrightarrow> canonical_le a b"
  by (cases "q_operation a"; cases "q_operation b")
     (auto simp: compare_items_def canonical_le_def Let_def)

lemma canonical_le_total: "canonical_le a b \<or> canonical_le b a"
  by (auto simp: canonical_le_def)

lemma canonical_le_trans: "canonical_le a b \<Longrightarrow> canonical_le b c \<Longrightarrow> canonical_le a c"
  by (auto simp: canonical_le_def)

lemma set_insert_by: "set (insert_by cmp x ys) = insert x (set ys)"
  by (induction ys) auto

lemma mset_insert_by: "mset (insert_by cmp x ys) = add_mset x (mset ys)"
  by (induction ys) auto

lemma mset_sort_by: "mset (sort_by cmp xs) = mset xs"
  by (induction xs) (simp_all add: sort_by_def mset_insert_by)

lemma sorted_insert_by:
  "sorted_wrt canonical_le ys \<Longrightarrow> sorted_wrt canonical_le (insert_by compare_items x ys)"
proof (induction ys)
  case Nil
  then show ?case by simp
next
  case (Cons y ys)
  show ?case
  proof (cases "compare_items x y \<le> 0")
    case True
    then have xy: "canonical_le x y" by (simp add: compare_le0)
    with Cons.prems have "\<forall>z\<in>set ys. canonical_le x z"
      by (auto intro: canonical_le_trans)
    with xy Cons.prems True show ?thesis by simp
  next
    case False
    then have yx: "canonical_le y x"
      using canonical_le_total [of x y] by (simp add: compare_le0)
    with Cons False show ?thesis by (auto simp: set_insert_by)
  qed
qed

lemma sorted_canonical_sort: "sorted_wrt canonical_le (canonical_sort xs)"
  unfolding canonical_sort_def sort_by_def
  by (induction xs) (simp_all add: sorted_insert_by)

lemma canonical_le_same_task:
  "canonical_le a b \<Longrightarrow> q_task_id a = q_task_id b \<Longrightarrow>
     q_created_at a \<le> q_created_at b
     \<and> (q_created_at a = q_created_at b
          \<longrightarrow> OP_PRIORITY (q_operation a) \<le> OP_PRIORITY (q_operation b))"
  by (auto simp: canonical_le_def)

text \<open>
  Claim C3. The order that the pass imposes before batching is a rearrangement of the
  entries that is sorted by task identity first (lexicographic), then by enqueue
  timestamp ascending, then, for the same task and timestamp, by operation priority
  create < update < delete. Consequently, of two entries with the same task identity the
  one that comes first has the earlier or the same enqueue timestamp, and with the same
  timestamp the lower or the same priority.
\<close>

theorem canonical_sort_sorted:
  "mset (canonical_sort items) = mset items
   \<and> sorted_wrt canonical_le (canonical_sort items)
   \<and> (\<forall>i j. i < j \<and> j < length (canonical_sort items)
          \<and> q_task_id (canonical_sort items ! i) = q_task_id (canonical_sort items ! j)
        \<longrightarrow> q_created_at (canonical_sort items ! i) \<le> q_created_at (canonical_sort items ! j)
            \<and> (q_created_at (canonical_sort items ! i) = q_created_at (canonical_sort items ! j)
                 \<longrightarrow> OP_PRIORITY (q_operation (canonical_sort items ! i))
                     \<le> OP_PRIORITY (q_operation (canonical_sort items ! j))))"
proof -
  have s: "sorted_wrt canonical_le (canonical_sort items)" by (rule sorted_canonical_sort)
  have m: "mset (canonical_sort items) = mset items"
    by (simp add: canonical_sort_def mset_sort_by)
  have "canonical_le (canonical_sort items ! i) (canonical_sort items ! j)"
    if "i < j" "j < length (canonical_sort items)" for i j
    using s that by (simp add: sorted_wrt_iff_nth_less)
  then show ?thesis using s m canonical_le_same_task by blast
qed

theorem canonical_sort_sorted_witness:
  "canonical_sort [entry_update, entry_create] = [entry_create, entry_update]
   \<and> (0::nat) < 1 \<and> 1 < length (canonical_sort [entry_update, entry_create])
   \<and> q_task_id (canonical_sort [entry_update, entry_create] ! 0)
       = q_task_id (canonical_sort [entry_update, entry_create] ! 1)
   \<and> q_created_at (canonical_sort [entry_update, entry_create] ! 0)
       \<le> q_created_at (canonical_sort [entry_update, entry_create] ! 1)"
proof -
  have c: "canonical_sort [entry_update, entry_create] = [entry_create, entry_update]"
    by (simp add: canonical_sort_def sort_by_def compare_items_def entry_create_def
        entry_update_def)
  show ?thesis
    using canonical_sort_sorted [of "[entry_update, entry_create]"]
    unfolding c by (simp add: entry_create_def entry_update_def)
qed

section \<open>The store's statements\<close>

lemma arg_Nil [simp]: "arg [] i = SqlNull"
  by (simp add: arg_def)

lemma arg_Cons_0 [simp]: "arg (x # xs) 0 = x"
  by (simp add: arg_def)

lemma arg_Cons_Suc [simp]: "arg (x # xs) (Suc i) = arg xs i"
  by (simp add: arg_def)

lemma arg_Cons_numeral [simp]: "arg (x # xs) (numeral k) = arg xs (pred_numeral k)"
  by (simp add: arg_def numeral_eq_Suc)

lemma sql_eq_text [simp]: "sql_eq v (SqlText s) \<longleftrightarrow> v = SqlText s"
  by (auto simp: sql_eq_def)

lemma sql_eq_null [simp]: "\<not> sql_eq v SqlNull"
  by (simp add: sql_eq_def)

lemma sync_queue_updateSyncStatus:
  "sync_queue (updateSyncStatus e taskId status serverData w)
     = (if status = ''synced'' \<or> status = ''failed''
        then filter (\<lambda>i. q_task_id i \<noteq> taskId) (sync_queue w) else sync_queue w)"
  by (simp add: updateSyncStatus_def Let_def)

lemma dead_letter_queue_updateSyncStatus [simp]:
  "dead_letter_queue (updateSyncStatus e taskId status serverData w) = dead_letter_queue w"
  by (simp add: updateSyncStatus_def Let_def)

lemma posted_updateSyncStatus [simp]:
  "posted (updateSyncStatus e taskId status serverData w) = posted w"
  by (simp add: updateSyncStatus_def Let_def)

lemma tick_updateSyncStatus [simp]:
  "tick (updateSyncStatus e taskId status serverData w) = Suc (tick w)"
  by (simp add: updateSyncStatus_def Let_def)

lemma tasks_updateSyncStatus:
  "tasks (updateSyncStatus e taskId status serverData w)
     = map (\<lambda>r. if r_id r = SqlText taskId
                then r\<lparr>r_sync_status := SqlText status,
                       r_server_id := COALESCE (case serverData of None \<Rightarrow> SqlNull
                                                | Some d \<Rightarrow> text_or_null (t_server_id d)) (r_server_id r),
                       r_last_synced_at := (if status = ''synced'' then SqlTime (clock e (tick w))
                                            else r_last_synced_at r)\<rparr>
                else r) (tasks w)"
  by (simp add: updateSyncStatus_def Let_def)

lemma ids_updateSyncStatus [simp]:
  "map r_id (tasks (updateSyncStatus e taskId status serverData w)) = map r_id (tasks w)"
  by (simp add: tasks_updateSyncStatus)


text \<open>
  Claim C10. Whenever \<open>updateSyncStatus\<close> sets a task's status to \<open>synced\<close> or to
  \<open>failed\<close>, the queue that it leaves is the old queue without every entry whose owning
  task identity is that task: no entry of the task remains, whichever mutation was being
  settled, and every entry of another task stays. For any other status the queue is
  unchanged.
\<close>

theorem updateSyncStatus_queue:
  "(status = ''synced'' \<or> status = ''failed'' \<longrightarrow>
      sync_queue (updateSyncStatus e taskId status serverData w)
        = filter (\<lambda>i. q_task_id i \<noteq> taskId) (sync_queue w)
      \<and> (\<forall>i \<in> set (sync_queue (updateSyncStatus e taskId status serverData w)). q_task_id i \<noteq> taskId)
      \<and> (\<forall>i \<in> set (sync_queue w). q_task_id i \<noteq> taskId
            \<longrightarrow> i \<in> set (sync_queue (updateSyncStatus e taskId status serverData w))))
   \<and> (status \<noteq> ''synced'' \<and> status \<noteq> ''failed'' \<longrightarrow>
        sync_queue (updateSyncStatus e taskId status serverData w) = sync_queue w)"
  by (simp add: sync_queue_updateSyncStatus)

theorem updateSyncStatus_queue_witness:
  "map q_task_id (sync_queue world_two) = [''a'', ''a'']
   \<and> sync_queue (updateSyncStatus env_up ''a'' ''synced'' None world_two) = []
   \<and> sync_queue (updateSyncStatus env_up ''a'' ''failed'' None world_two) = []
   \<and> sync_queue (updateSyncStatus env_up ''b'' ''synced'' None world_two) = sync_queue world_two
   \<and> sync_queue (updateSyncStatus env_up ''a'' ''error'' None world_two) = sync_queue world_two
   \<and> sync_queue (updateSyncStatus env_up ''a'' ''in-progress'' None world_two) = sync_queue world_two"
  using updateSyncStatus_queue [of "''synced''" env_up "''a''" None world_two]
    updateSyncStatus_queue [of "''failed''" env_up "''a''" None world_two]
    updateSyncStatus_queue [of "''synced''" env_up "''b''" None world_two]
    updateSyncStatus_queue [of "''error''" env_up "''a''" None world_two]
    updateSyncStatus_queue [of "''in-progress''" env_up "''a''" None world_two]
  by (simp add: world_two_def entry_create_def entry_update_def)

section \<open>The retry and dead-letter path\<close>







section \<open>Outcomes of a batch response\<close>

lemma mark_error_fields [simp]:
  "sync_queue (mark_error c w) = sync_queue w"
  "dead_letter_queue (mark_error c w) = dead_letter_queue w"
  "posted (mark_error c w) = posted w"
  "tick (mark_error c w) = tick w"
  "map r_id (tasks (mark_error c w)) = map r_id (tasks w)"
  by (simp_all add: mark_error_def)

lemma mark_error_status:
  "r \<in> set (tasks (mark_error c w)) \<Longrightarrow> r_id r = SqlText c \<Longrightarrow> r_sync_status r = SqlText ''error''"
  by (auto simp: mark_error_def split: if_splits)

lemma bump_fields [simp]:
  "sync_queue (bump w) = sync_queue w"
  "dead_letter_queue (bump w) = dead_letter_queue w"
  "posted (bump w) = posted w"
  "tasks (bump w) = tasks w"
  "tick (bump w) = Suc (tick w)"
  by (simp_all add: bump_def)

lemma record_failure_fields [simp]:
  "errors (record_failure e t op m w result)
     = errors result @ [\<lparr>e_task_id = t, e_operation = op, e_error = m, e_timestamp = clock e (tick w)\<rparr>]"
  "failed_items (record_failure e t op m w result) = Suc (failed_items result)"
  "synced_items (record_failure e t op m w result) = synced_items result"
  "success (record_failure e t op m w result) = success result"
  by (simp_all add: record_failure_def)

lemma process_item_conflict_missing:
  assumes "p_status res = ''conflict''" and "local_lookup e (p_client_id res) w = None"
  shows "process_item e (w, result) res
     = (mark_error (p_client_id res) (bump w),
        (record_failure e (p_client_id res) ''unknown''
           (if p_resolved_data res \<noteq> None then ''Conflict: local task missing''
            else case p_error res of None \<Rightarrow> ''Unknown error''
                 | Some m \<Rightarrow> if m = [] then ''Unknown error'' else m) w result)\<lparr>success := False\<rparr>)"
  using assms by (simp add: process_item_def)

text \<open>
  Claim C9. For a per-item outcome with status \<open>conflict\<close> whose local record cannot be
  found, the rows of the task are marked \<open>error\<close>, exactly one error record, for that
  task, is appended to the result, the count of failed items grows by one, the result is
  marked unsuccessful, and the queue and the dead-letter store are unchanged: no retry
  counter is incremented and nothing is routed to the retry or dead-letter path.
\<close>

theorem conflict_without_local_record:
  assumes "p_status res = ''conflict''" and "local_lookup e (p_client_id res) w = None"
  shows "sync_queue (fst (process_item e (w, result) res)) = sync_queue w
     \<and> dead_letter_queue (fst (process_item e (w, result) res)) = dead_letter_queue w
     \<and> map r_id (tasks (fst (process_item e (w, result) res))) = map r_id (tasks w)
     \<and> (\<forall>r \<in> set (tasks (fst (process_item e (w, result) res))).
           r_id r = SqlText (p_client_id res) \<longrightarrow> r_sync_status r = SqlText ''error'')
     \<and> (\<exists>err. errors (snd (process_item e (w, result) res)) = errors result @ [err]
              \<and> e_task_id err = p_client_id res)
     \<and> failed_items (snd (process_item e (w, result) res)) = Suc (failed_items result)
     \<and> synced_items (snd (process_item e (w, result) res)) = synced_items result
     \<and> \<not> success (snd (process_item e (w, result) res))"
  unfolding process_item_conflict_missing [OF assms]
  using mark_error_status by auto

theorem conflict_without_local_record_witness:
  "p_status ghost_conflict = ''conflict''
   \<and> local_lookup env_up (p_client_id ghost_conflict) world_two = None
   \<and> sync_queue (fst (process_item env_up (world_two, empty_result) ghost_conflict)) = sync_queue world_two
   \<and> failed_items (snd (process_item env_up (world_two, empty_result) ghost_conflict)) = 1
   \<and> \<not> success (snd (process_item env_up (world_two, empty_result) ghost_conflict))"
proof -
  have a: "p_status ghost_conflict = ''conflict''" by (simp add: ghost_conflict_def)
  have b: "local_lookup env_up (p_client_id ghost_conflict) world_two = None"
    by (simp add: local_lookup_def getTask_def ghost_conflict_def world_two_def row_a_def)
  show ?thesis
    using conflict_without_local_record [OF a b, of empty_result] a b
    by (simp add: empty_result_def)
qed

text \<open>
  Claim C6 at the outcome that the batch endpoint builds. The outcome has status
  \<open>success\<close> and carries the identity \<open>srv_42\<close> that the remote assigned; after
  the pass has handled it, the task is \<open>synced\<close> and has no queue entries, but its
  \<open>server_id\<close> is still NULL: the pass looks for the identity in the \<open>server_id\<close> of
  \<open>resolved_data\<close> only.
\<close>

theorem success_outcome_drops_server_id:
  "p_status stub_outcome = ''success'' \<and> p_server_id stub_outcome = Some ''srv_42''
   \<and> map r_id (tasks world_in_flight) = [SqlText (p_client_id stub_outcome)]
   \<and> map r_sync_status (tasks (fst (process_item env_up (world_in_flight, empty_result) stub_outcome)))
       = [SqlText ''synced'']
   \<and> map r_server_id (tasks (fst (process_item env_up (world_in_flight, empty_result) stub_outcome)))
       = [SqlNull]
   \<and> sync_queue (fst (process_item env_up (world_in_flight, empty_result) stub_outcome)) = []"
  by (simp add: process_item_def stub_outcome_def stub_data_def world_in_flight_def row_a_def
      tasks_updateSyncStatus sync_queue_updateSyncStatus text_or_null_def COALESCE_def
      entry_create_def)

section \<open>Local mutations\<close>

lemma tasks_addToSyncQueue [simp]: "tasks (addToSyncQueue e t op d w) = tasks w"
  by (simp add: addToSyncQueue_def Let_def)

lemma updateTask_found:
  assumes "getTask ident w = Some existing"
  shows "updateTask e ident updates w
     = (Some ((merge existing updates)\<lparr>t_updated_at := clock e (tick w), t_sync_status := ''pending''\<rparr>),
        addToSyncQueue e (t_id (merge existing updates)) Update
          ((merge existing updates)\<lparr>t_updated_at := clock e (tick w), t_sync_status := ''pending''\<rparr>)
          (w\<lparr>tick := Suc (tick w)\<rparr>))"
proof -
  have "w\<lparr>tasks := map (\<lambda>r. r) (tasks w), tick := Suc (tick w)\<rparr> = w\<lparr>tick := Suc (tick w)\<rparr>"
    by simp
  then show ?thesis using assms by (simp add: updateTask_def Let_def)
qed

lemma updateTask_leaves_rows: "tasks (snd (updateTask e ident updates w)) = tasks w"
proof (cases "getTask ident w")
  case None
  then show ?thesis by (simp add: updateTask_def)
next
  case (Some existing)
  then show ?thesis by (simp add: updateTask_found)
qed

text \<open>
  Claim C8 at an update of a synced task. \<open>updateTask\<close> returns the task with the new
  title, \<open>sync_status\<close> \<open>pending\<close> and \<open>updated_at\<close> the time of the mutation, and
  appends an \<open>update\<close> entry to the queue, but the stored row keeps its old title, its
  \<open>sync_status\<close> \<open>synced\<close> and its old \<open>updated_at\<close>: the placeholder of
  \<^verbatim>\<open>WHERE id = ?\<close> has no value and the statement selects no row.
\<close>

theorem updateTask_not_persisted:
  "map r_sync_status (tasks world_synced) = [SqlText ''synced'']
   \<and> map_option t_sync_status (fst (updateTask env_up ''a'' title_edit world_synced)) = Some ''pending''
   \<and> map_option t_title (fst (updateTask env_up ''a'' title_edit world_synced)) = Some ''Buy oat milk''
   \<and> map_option t_updated_at (fst (updateTask env_up ''a'' title_edit world_synced)) = Some 1000
   \<and> tasks (snd (updateTask env_up ''a'' title_edit world_synced)) = tasks world_synced
   \<and> map r_sync_status (tasks (snd (updateTask env_up ''a'' title_edit world_synced))) = [SqlText ''synced'']
   \<and> map r_title (tasks (snd (updateTask env_up ''a'' title_edit world_synced))) = [SqlText ''Buy milk'']
   \<and> map r_updated_at (tasks (snd (updateTask env_up ''a'' title_edit world_synced))) = [SqlTime 100]
   \<and> map q_operation (sync_queue (snd (updateTask env_up ''a'' title_edit world_synced))) = [Update]"
proof -
  have g: "getTask ''a'' world_synced = Some (task_a\<lparr>t_sync_status := ''synced'', t_last_synced_at := Some 300\<rparr>)"
    by (simp add: getTask_def world_synced_def row_a_def mapRowToTask_def task_a_def)
  have c: "clock env_up (tick world_synced) = 1000"
    by (simp add: env_up_def env_down_def world_synced_def)
  have r: "tasks (snd (updateTask env_up ''a'' title_edit world_synced)) = tasks world_synced"
    by (rule updateTask_leaves_rows)
  have q: "sync_queue world_synced = []" by (simp add: world_synced_def)
  show ?thesis unfolding r unfolding updateTask_found [OF g] c
    by (simp add: q addToSyncQueue_def world_synced_def row_a_def merge_def title_edit_def no_updates_def)
qed

section \<open>A batch whose transport call throws\<close>

lemma posted_handleSyncError [simp]: "posted (handleSyncError e item m w) = posted w"
  by (simp add: handleSyncError_def Let_def)

lemma fail_item_eq:
  "fail_item e m (w, result) item
     = (bump (handleSyncError e item m w),
        record_failure e (q_task_id item) (op_text (q_operation item)) m (handleSyncError e item m w) result)"
  by (simp add: fail_item_def Let_def)

lemma error_fields_record [simp]:
  "error_fields \<lparr>e_task_id = t, e_operation = op, e_error = m, e_timestamp = ts\<rparr> = (t, op, m)"
  by (simp add: error_fields_def)

lemma fst_foldl_fail_item:
  "fst (foldl (fail_item e m) (w, result) batch)
     = foldl (\<lambda>w item. bump (handleSyncError e item m w)) w batch"
  by (induction batch arbitrary: w result) (simp_all add: fail_item_eq)

lemma errors_foldl_fail_item:
  "map error_fields (errors (snd (foldl (fail_item e m) (w, result) batch)))
     = map error_fields (errors result)
       @ map (\<lambda>item. (q_task_id item, op_text (q_operation item), m)) batch"
  by (induction batch arbitrary: w result) (simp_all add: fail_item_eq)

lemma counts_foldl_fail_item:
  "failed_items (snd (foldl (fail_item e m) (w, result) batch)) = failed_items result + length batch
   \<and> synced_items (snd (foldl (fail_item e m) (w, result) batch)) = synced_items result
   \<and> success (snd (foldl (fail_item e m) (w, result) batch)) = success result"
  by (induction batch arbitrary: w result) (simp_all add: fail_item_eq)

lemma posted_foldl_fail_item:
  "posted (fst (foldl (fail_item e m) (w, result) batch)) = posted w"
  by (induction batch arbitrary: w result) (simp_all add: fail_item_eq)

lemma sync_batch_thrown:
  assumes "fst (processBatch e batch (markTasksInProgress (unique (map q_task_id batch)) w)) = Inl err"
  shows "sync_batch e (w, result) batch
     = (fst (foldl (fail_item e (error_message err))
               (snd (processBatch e batch (markTasksInProgress (unique (map q_task_id batch)) w)), result)
               batch),
        (snd (foldl (fail_item e (error_message err))
               (snd (processBatch e batch (markTasksInProgress (unique (map q_task_id batch)) w)), result)
               batch))\<lparr>success := False\<rparr>)"
  using assms
  by (cases "processBatch e batch (markTasksInProgress (unique (map q_task_id batch)) w)")
     (simp add: sync_batch_def Let_def split: prod.splits)

lemma sync_batch_returned:
  assumes "fst (processBatch e batch (markTasksInProgress (unique (map q_task_id batch)) w)) = Inr items"
  shows "sync_batch e (w, result) batch
     = foldl (process_item e)
         (snd (processBatch e batch (markTasksInProgress (unique (map q_task_id batch)) w)), result) items"
  using assms
  by (cases "processBatch e batch (markTasksInProgress (unique (map q_task_id batch)) w)")
     (simp add: sync_batch_def Let_def split: prod.splits)

lemma extends_refl: "extends r r"
  by (simp add: extends_def)

lemma extends_trans: "extends a b \<Longrightarrow> extends b c \<Longrightarrow> extends a c"
  by (auto simp: extends_def)

lemma process_item_extends: "extends result (snd (process_item e (w, result) res))"
  by (auto simp: process_item_def extends_def Let_def split: option.splits)

lemma foldl_process_item_extends: "extends result (snd (foldl (process_item e) (w, result) items))"
proof (induction items arbitrary: w result)
  case Nil
  show ?case by (simp add: extends_refl)
next
  case (Cons res items)
  obtain w1 r1 where st: "process_item e (w, result) res = (w1, r1)" by (cases "process_item e (w, result) res")
  have "extends result r1" using process_item_extends [of result e w res] st by simp
  moreover have "extends r1 (snd (foldl (process_item e) (w1, r1) items))" by (rule Cons.IH)
  ultimately show ?case using st by (auto intro: extends_trans)
qed

lemma foldl_fail_item_extends: "extends result (snd (foldl (fail_item e m) (w, result) batch))"
proof (induction batch arbitrary: w result)
  case Nil
  show ?case by (simp add: extends_refl)
next
  case (Cons item batch)
  have "extends result (record_failure e (q_task_id item) (op_text (q_operation item)) m
          (handleSyncError e item m w) result)"
    by (simp add: extends_def)
  then show ?case unfolding foldl_Cons fail_item_eq
    using Cons.IH extends_trans by blast
qed

lemma sync_batch_extends: "extends result (snd (sync_batch e (w, result) batch))"
proof (cases "fst (processBatch e batch (markTasksInProgress (unique (map q_task_id batch)) w))")
  case (Inl err)
  have "extends result (snd (foldl (fail_item e (error_message err))
          (snd (processBatch e batch (markTasksInProgress (unique (map q_task_id batch)) w)), result) batch))"
    by (rule foldl_fail_item_extends)
  then show ?thesis unfolding sync_batch_thrown [OF Inl] by (simp add: extends_def)
next
  case (Inr items)
  show ?thesis unfolding sync_batch_returned [OF Inr] by (rule foldl_process_item_extends)
qed

lemma foldl_sync_batch_extends: "extends (snd st) (snd (foldl (sync_batch e) st bs))"
proof (induction bs arbitrary: st)
  case Nil
  show ?case by (simp add: extends_refl)
next
  case (Cons b bs)
  obtain w r where st: "st = (w, r)" by (cases st)
  have "extends r (snd (sync_batch e (w, r) b))" by (rule sync_batch_extends)
  moreover have "extends (snd (sync_batch e (w, r) b)) (snd (foldl (sync_batch e) (sync_batch e (w, r) b) bs))"
    by (rule Cons.IH)
  ultimately show ?case using st by (auto intro: extends_trans)
qed

text \<open>
  Claim C5. For every batch whose transport call throws: the store that the batch leaves
  is the one obtained by passing every item of the batch, in order, through the failure
  handler \<open>handleSyncError\<close> with the thrown error's message; exactly one error record
  per item, naming the item's task and operation and that message, is appended to the
  pass result, and the count of failed items grows by the size of the batch; the result
  is marked unsuccessful; and the pass goes on with the batches that follow, at the end
  of which it is still unsuccessful and still holds those error records.
\<close>

theorem failed_batch_is_not_fatal:
  assumes "fst (processBatch e batch (markTasksInProgress (unique (map q_task_id batch)) w)) = Inl err"
  shows "fst (sync_batch e (w, result) batch)
       = foldl (\<lambda>w item. bump (handleSyncError e item (error_message err) w))
           (snd (processBatch e batch (markTasksInProgress (unique (map q_task_id batch)) w))) batch
   \<and> map error_fields (errors (snd (sync_batch e (w, result) batch)))
       = map error_fields (errors result)
         @ map (\<lambda>item. (q_task_id item, op_text (q_operation item), error_message err)) batch
   \<and> failed_items (snd (sync_batch e (w, result) batch)) = failed_items result + length batch
   \<and> synced_items (snd (sync_batch e (w, result) batch)) = synced_items result
   \<and> \<not> success (snd (sync_batch e (w, result) batch))
   \<and> foldl (sync_batch e) (w, result) (batch # rest)
       = foldl (sync_batch e) (sync_batch e (w, result) batch) rest
   \<and> \<not> success (snd (foldl (sync_batch e) (w, result) (batch # rest)))
   \<and> (\<exists>more. errors (snd (foldl (sync_batch e) (w, result) (batch # rest)))
               = errors (snd (sync_batch e (w, result) batch)) @ more)"
proof -
  let ?w2 = "snd (processBatch e batch (markTasksInProgress (unique (map q_task_id batch)) w))"
  let ?b = "sync_batch e (w, result) batch"
  note f = fst_foldl_fail_item [of e "error_message err" ?w2 result batch]
    errors_foldl_fail_item [of e "error_message err" ?w2 result batch]
    counts_foldl_fail_item [of e "error_message err" ?w2 result batch]
  note t = sync_batch_thrown [OF assms, of result]
  have 1: "fst ?b = foldl (\<lambda>w item. bump (handleSyncError e item (error_message err) w)) ?w2 batch"
    unfolding t using f by simp
  have 2: "map error_fields (errors (snd ?b)) = map error_fields (errors result)
         @ map (\<lambda>item. (q_task_id item, op_text (q_operation item), error_message err)) batch"
    unfolding t using f by simp
  have 3: "failed_items (snd ?b) = failed_items result + length batch"
    unfolding t using f by simp
  have 4: "synced_items (snd ?b) = synced_items result"
    unfolding t using f by simp
  have 5: "\<not> success (snd ?b)"
    unfolding t by simp
  have 6: "foldl (sync_batch e) (w, result) (batch # rest) = foldl (sync_batch e) ?b rest"
    by simp
  have ext: "extends (snd ?b) (snd (foldl (sync_batch e) ?b rest))"
    by (rule foldl_sync_batch_extends)
  have 7: "\<not> success (snd (foldl (sync_batch e) (w, result) (batch # rest)))"
    unfolding 6 using ext 5 by (simp add: extends_def)
  have 8: "\<exists>more. errors (snd (foldl (sync_batch e) (w, result) (batch # rest)))
               = errors (snd ?b) @ more"
    unfolding 6 using ext by (simp add: extends_def)
  show ?thesis using 1 2 3 4 5 6 7 8 by blast
qed

lemma processBatch_fst:
  "fst (processBatch e items w)
     = (if \<not> health e (Suc (tick w)) then Inl (ErrorObj ''Server not reachable'')
        else case post e (Suc (Suc (tick w))) of
               PostThrows err \<Rightarrow> Inl err
             | PostReturns processed_items \<Rightarrow> Inr processed_items)"
  by (simp add: processBatch_def checkConnectivity_def Let_def split: post_outcome.splits)

lemma processBatch_unreachable:
  "\<not> health e (Suc (tick w)) \<Longrightarrow>
   processBatch e items w = (Inl (ErrorObj ''Server not reachable''), bump (bump w))"
  by (simp add: processBatch_def checkConnectivity_def Let_def)

theorem failed_batch_is_not_fatal_witness:
  "fst (processBatch env_throw [entry_create, entry_update]
          (markTasksInProgress (unique (map q_task_id [entry_create, entry_update])) world_two))
     = Inl (ErrorObj ''timeout'')
   \<and> map error_fields (errors (snd (sync_batch env_throw (world_two, empty_result) [entry_create, entry_update])))
       = [(''a'', ''create'', ''timeout''), (''a'', ''update'', ''timeout'')]
   \<and> failed_items (snd (sync_batch env_throw (world_two, empty_result) [entry_create, entry_update])) = 2
   \<and> \<not> success (snd (sync_batch env_throw (world_two, empty_result) [entry_create, entry_update]))"
proof -
  have h: "fst (processBatch env_throw [entry_create, entry_update]
          (markTasksInProgress (unique (map q_task_id [entry_create, entry_update])) world_two))
     = Inl (ErrorObj ''timeout'')"
    by (simp add: processBatch_fst env_throw_def env_down_def)
  show ?thesis
    using failed_batch_is_not_fatal [OF h, of empty_result "[]"] h
    by (simp add: empty_result_def entry_create_def entry_update_def error_message_def)
qed

section \<open>A pass while the remote is unreachable\<close>

lemma posted_markTasksInProgress [simp]: "posted (markTasksInProgress ids w) = posted w"
  by (simp add: markTasksInProgress_def)

lemma tick_markTasksInProgress [simp]: "tick (markTasksInProgress ids w) = tick w"
  by (simp add: markTasksInProgress_def)

lemma messages_foldl_fail_item:
  "map e_error (errors (snd (foldl (fail_item e m) (w, result) batch)))
     = map e_error (errors result) @ replicate (length batch) m"
  by (induction batch arbitrary: w result) (simp_all add: fail_item_eq replicate_app_Cons_same)

lemma sync_batch_unreachable:
  assumes "\<forall>n. \<not> health e n"
  shows "sync_batch e (w, result) batch
     = (fst (foldl (fail_item e ''Server not reachable'')
               (bump (bump (markTasksInProgress (unique (map q_task_id batch)) w)), result) batch),
        (snd (foldl (fail_item e ''Server not reachable'')
               (bump (bump (markTasksInProgress (unique (map q_task_id batch)) w)), result) batch))
          \<lparr>success := False\<rparr>)"
proof -
  have p: "processBatch e batch (markTasksInProgress (unique (map q_task_id batch)) w)
     = (Inl (ErrorObj ''Server not reachable''),
        bump (bump (markTasksInProgress (unique (map q_task_id batch)) w)))"
    using assms by (simp add: processBatch_unreachable)
  show ?thesis
    using sync_batch_thrown [of e batch w "ErrorObj ''Server not reachable''" result]
    unfolding p by (simp add: error_message_def)
qed

lemma foldl_sync_batch_unreachable:
  assumes "\<forall>n. \<not> health e n"
  shows "posted (fst (foldl (sync_batch e) (w, result) bs)) = posted w
     \<and> map e_error (errors (snd (foldl (sync_batch e) (w, result) bs)))
         = map e_error (errors result) @ replicate (length (concat bs)) ''Server not reachable''
     \<and> failed_items (snd (foldl (sync_batch e) (w, result) bs)) = failed_items result + length (concat bs)
     \<and> synced_items (snd (foldl (sync_batch e) (w, result) bs)) = synced_items result
     \<and> success (snd (foldl (sync_batch e) (w, result) bs)) = (success result \<and> bs = [])"
proof (induction bs arbitrary: w result)
  case Nil
  show ?case by simp
next
  case (Cons b bs)
  let ?st = "foldl (fail_item e ''Server not reachable'')
               (bump (bump (markTasksInProgress (unique (map q_task_id b)) w)), result) b"
  have sb: "sync_batch e (w, result) b = (fst ?st, (snd ?st)\<lparr>success := False\<rparr>)"
    by (rule sync_batch_unreachable [OF assms])
  note ih = Cons.IH [of "fst ?st" "(snd ?st)\<lparr>success := False\<rparr>"]
  have p: "posted (fst ?st) = posted w"
    by (simp add: posted_foldl_fail_item)
  have m: "map e_error (errors (snd ?st))
      = map e_error (errors result) @ replicate (length b) ''Server not reachable''"
    by (rule messages_foldl_fail_item)
  note c = counts_foldl_fail_item [of e "''Server not reachable''"
      "bump (bump (markTasksInProgress (unique (map q_task_id b)) w))" result b]
  show ?case
    unfolding foldl_Cons sb using ih p m c
    by (simp add: replicate_add)
qed

lemma concat_batches: "0 < n \<Longrightarrow> concat (batches n xs) = xs"
proof (induction n xs rule: batches.induct)
  case (1 n xs)
  show ?case
  proof (cases "xs = []")
    case True
    then show ?thesis by (simp add: batches.simps)
  next
    case False
    with 1 show ?thesis by (subst batches.simps) simp
  qed
qed

lemma batches_empty_iff: "0 < n \<Longrightarrow> batches n xs = [] \<longleftrightarrow> xs = []"
  by (subst batches.simps) simp

lemma length_canonical_sort: "length (canonical_sort xs) = length xs"
  using mset_sort_by [of compare_items xs] mset_eq_length
  unfolding canonical_sort_def by blast

text \<open>
  Claim C4, as amended. For every sync pass invoked while the remote is unreachable (the
  connectivity probe fails whenever it is made), with a positive batch size: the pass
  returns, it posts no batch, and its result holds exactly one \<open>Server not reachable\<close>
  error per entry of the queue and as many failed items, no synced item, and is
  unsuccessful exactly when the queue is not empty. (The probe is made once per batch,
  after the tasks of the batch have been marked in-progress, and its failure sends every
  entry of the batch through the failure handler.)
\<close>

theorem unreachable_pass:
  assumes "\<forall>n. \<not> health e n" and "0 < SYNC_BATCH_SIZE e"
  shows "\<exists>w' result. sync e w = Some (w', result)
     \<and> posted w' = posted w
     \<and> map e_error (errors result) = replicate (length (sync_queue w)) ''Server not reachable''
     \<and> failed_items result = length (sync_queue w)
     \<and> synced_items result = 0
     \<and> success result = (sync_queue w = [])"
proof -
  let ?sorted = "canonical_sort (sort_key q_created_at (sync_queue w))"
  let ?bs = "batches (SYNC_BATCH_SIZE e) ?sorted"
  let ?st = "foldl (sync_batch e) (w, empty_result) ?bs"
  have s: "sync e w = Some ?st"
    using assms(2) by (simp add: sync_def Let_def)
  have len: "length (concat ?bs) = length (sync_queue w)"
    using assms(2) by (simp add: concat_batches length_canonical_sort)
  have emp: "?bs = [] \<longleftrightarrow> sync_queue w = []"
  proof -
    have "?bs = [] \<longleftrightarrow> ?sorted = []" using assms(2) by (rule batches_empty_iff)
    also have "\<dots> \<longleftrightarrow> length ?sorted = 0" by simp
    also have "\<dots> \<longleftrightarrow> sync_queue w = []" by (simp add: length_canonical_sort)
    finally show ?thesis .
  qed
  note f = foldl_sync_batch_unreachable [OF assms(1), of w empty_result ?bs]
  have "posted (fst ?st) = posted w
     \<and> map e_error (errors (snd ?st)) = replicate (length (sync_queue w)) ''Server not reachable''
     \<and> failed_items (snd ?st) = length (sync_queue w)
     \<and> synced_items (snd ?st) = 0
     \<and> success (snd ?st) = (sync_queue w = [])"
    using f len emp by (simp add: empty_result_def)
  then show ?thesis using s by (metis prod.collapse)
qed

theorem unreachable_pass_witness:
  "sync env_down world_two \<noteq> None
   \<and> posted (fst (the (sync env_down world_two))) = []
   \<and> map e_error (errors (snd (the (sync env_down world_two))))
       = [''Server not reachable'', ''Server not reachable'']
   \<and> \<not> success (snd (the (sync env_down world_two)))"
proof -
  have a: "\<forall>n. \<not> health env_down n" by (simp add: env_down_def)
  have b: "0 < SYNC_BATCH_SIZE env_down" by (simp add: env_down_def)
  have c: "sync_queue world_two = [entry_create, entry_update]" "posted world_two = []"
    by (simp_all add: world_two_def)
  show ?thesis
    using unreachable_pass [OF a b, of world_two] unfolding c
    by (auto simp: numeral_2_eq_2)
qed

lemma batches_small: "0 < n \<Longrightarrow> length xs \<le> n \<Longrightarrow> xs \<noteq> [] \<Longrightarrow> batches n xs = [xs]"
  by (subst batches.simps, simp, subst batches.simps, simp)

lemma sorted_two:
  "canonical_sort (sort_key q_created_at [entry_create, entry_update]) = [entry_create, entry_update]"
  by (simp add: canonical_sort_def sort_by_def compare_items_def entry_create_def entry_update_def)

lemma sync_down_two:
  "sync env_down world_two
     = Some (sync_batch env_down (world_two, empty_result) [entry_create, entry_update])"
proof -
  have q: "sync_queue world_two = [entry_create, entry_update]" by (simp add: world_two_def)
  have n: "SYNC_BATCH_SIZE env_down = 10" by (simp add: env_down_def)
  show ?thesis
    unfolding sync_def q sorted_two n Let_def
    by (simp add: batches_small)
qed

lemma step1:
  "handleSyncError env_down entry_create ''Server not reachable''
     (bump (bump (markTasksInProgress [''a''] world_two)))
   = \<lparr>tasks = [row_a\<lparr>r_sync_status := SqlText ''error''\<rparr>],
      sync_queue = [entry_create\<lparr>q_retry_count := 1, q_error_message := Some ''Server not reachable''\<rparr>,
                    entry_update],
      dead_letter_queue = [], posted = [], tick = 3\<rparr>"
  by (simp add: handleSyncError_def updateSyncStatus_def markTasksInProgress_def bump_def Let_def
      world_two_def entry_create_def entry_update_def row_a_def MAX_RETRY_COUNT_def COALESCE_def)

text \<open>
  Claim C4 as stated fails. With two entries of one task in the queue and a remote that
  never answers the probe, the pass marks the task in-progress, records two errors, not
  one, and leaves both entries in the queue with their retry counters incremented from 0
  to 1.
\<close>

theorem unreachable_pass_counterexample:
  "sync env_down world_two \<noteq> None
   \<and> length (errors (snd (the (sync env_down world_two)))) = 2
   \<and> map r_sync_status (tasks (markTasksInProgress (unique (map q_task_id (sync_queue world_two))) world_two))
       = [SqlText ''in-progress'']
   \<and> map q_retry_count (sync_queue world_two) = [0, 0]
   \<and> map q_retry_count (sync_queue (fst (the (sync env_down world_two)))) = [1, 1]"
proof -
  have u: "unique (map q_task_id [entry_create, entry_update]) = [''a'']"
    by (simp add: unique_def entry_create_def entry_update_def)
  have h: "\<forall>n. \<not> health env_down n" by (simp add: env_down_def)
  have b: "sync_batch env_down (world_two, empty_result) [entry_create, entry_update]
     = (fst (foldl (fail_item env_down ''Server not reachable'')
               (bump (bump (markTasksInProgress [''a''] world_two)), empty_result)
               [entry_create, entry_update]),
        (snd (foldl (fail_item env_down ''Server not reachable'')
               (bump (bump (markTasksInProgress [''a''] world_two)), empty_result)
               [entry_create, entry_update]))\<lparr>success := False\<rparr>)"
    using sync_batch_unreachable [OF h, of world_two empty_result "[entry_create, entry_update]"]
    unfolding u .
  have e: "length (errors (snd (foldl (fail_item env_down ''Server not reachable'')
               (bump (bump (markTasksInProgress [''a''] world_two)), empty_result)
               [entry_create, entry_update]))) = 2"
    using messages_foldl_fail_item [of env_down "''Server not reachable''"
        "bump (bump (markTasksInProgress [''a''] world_two))" empty_result "[entry_create, entry_update]"]
    by (metis length_map length_replicate append_Nil empty_result_def sync_result.select_convs(4)
        list.map(1) length_Cons list.size(3) numeral_2_eq_2)
  have q: "map q_retry_count (sync_queue (fst (foldl (fail_item env_down ''Server not reachable'')
               (bump (bump (markTasksInProgress [''a''] world_two)), empty_result)
               [entry_create, entry_update]))) = [1, 1]"
    unfolding fst_foldl_fail_item
    by (simp add: step1)
       (simp add: handleSyncError_def updateSyncStatus_def bump_def Let_def
         entry_create_def entry_update_def MAX_RETRY_COUNT_def)
  have m: "map r_sync_status (tasks (markTasksInProgress (unique (map q_task_id (sync_queue world_two))) world_two))
       = [SqlText ''in-progress'']"
  proof -
    have "unique (map q_task_id (sync_queue world_two)) = [''a'']"
      by (simp add: unique_def world_two_def entry_create_def entry_update_def)
    then show ?thesis
      by (simp add: markTasksInProgress_def row_a_def world_two_def)
  qed
  have z: "map q_retry_count (sync_queue world_two) = [0, 0]"
    by (simp add: world_two_def entry_create_def entry_update_def)
  show ?thesis unfolding sync_down_two b using e q m z by simp
qed

section \<open>What success outcomes, creation and soft delete do\<close>

text \<open>
  A success outcome marks the rows of its task \<open>synced\<close>, sets their last-synced
  timestamp, removes the task's queue entries, and stores the \<open>server_id\<close> of
  \<open>resolved_data\<close> when there is one; after a response of success outcomes only, every
  task that an outcome names is synced and has no queue entry.
\<close>

lemma process_item_success:
  "p_status res = ''success'' \<Longrightarrow>
   process_item e (w, result) res
     = (updateSyncStatus e (p_client_id res) ''synced'' (p_resolved_data res) w,
        result\<lparr>synced_items := Suc (synced_items result)\<rparr>)"
  by (simp add: process_item_def)

lemma success_outcome_effect:
  assumes "p_status res = ''success''"
  shows "(\<forall>r \<in> set (tasks (fst (process_item e (w, result) res))).
            r_id r = SqlText (p_client_id res) \<longrightarrow>
              r_sync_status r = SqlText ''synced''
              \<and> r_last_synced_at r = SqlTime (clock e (tick w)))
     \<and> (\<forall>i \<in> set (sync_queue (fst (process_item e (w, result) res))). q_task_id i \<noteq> p_client_id res)
     \<and> (\<forall>d s. p_resolved_data res = Some d \<and> t_server_id d = Some s \<and> s \<noteq> [] \<longrightarrow>
           (\<forall>r \<in> set (tasks (fst (process_item e (w, result) res))).
              r_id r = SqlText (p_client_id res) \<longrightarrow> r_server_id r = SqlText s))"
  unfolding process_item_success [OF assms]
  by (auto simp: tasks_updateSyncStatus sync_queue_updateSyncStatus text_or_null_def COALESCE_def
      split: if_splits)

lemma settled_updateSyncStatus_same: "settled c (updateSyncStatus e c ''synced'' d w)"
  by (auto simp: settled_def tasks_updateSyncStatus sync_queue_updateSyncStatus split: if_splits)

lemma settled_updateSyncStatus_other:
  "settled c w \<Longrightarrow> settled c (updateSyncStatus e c' ''synced'' d w)"
  by (auto simp: settled_def tasks_updateSyncStatus sync_queue_updateSyncStatus split: if_splits)

lemma all_success_settles:
  assumes "\<forall>res \<in> set items. p_status res = ''success''"
  shows "\<forall>res \<in> set items. settled (p_client_id res) (fst (foldl (process_item e) (w, result) items))"
  using assms
proof (induction items rule: rev_induct)
  case Nil
  show ?case by simp
next
  case (snoc x items)
  obtain w1 r1 where st: "foldl (process_item e) (w, result) items = (w1, r1)"
    by (cases "foldl (process_item e) (w, result) items")
  have x: "p_status x = ''success''" using snoc.prems by simp
  have ih: "\<forall>res \<in> set items. settled (p_client_id res) w1"
    using snoc st by simp
  have last: "fst (foldl (process_item e) (w, result) (items @ [x]))
      = updateSyncStatus e (p_client_id x) ''synced'' (p_resolved_data x) w1"
    by (simp add: st process_item_success [OF x])
  show ?case unfolding last
    using ih settled_updateSyncStatus_same settled_updateSyncStatus_other by auto
qed

text \<open>
  \<open>createTask\<close> stores a pending row whose two timestamps are the time of the call,
  and \<open>deleteTask\<close> keeps the row, sets its delete flag, resets it to pending and
  refreshes \<open>updated_at\<close>; each appends one matching entry to the queue.
\<close>

lemma createTask_persists:
  "tasks (snd (createTask e taskData w))
     = tasks w @ [\<lparr>r_id = SqlText (uuidv4 e (Suc (tick w))),
                   r_title = SqlText (t_title (fst (createTask e taskData w))),
                   r_description = SqlText (t_description (fst (createTask e taskData w))),
                   r_completed = flag (t_completed (fst (createTask e taskData w))),
                   r_created_at = SqlTime (clock e (tick w)),
                   r_updated_at = SqlTime (clock e (tick w)),
                   r_is_deleted = SqlInt 0, r_sync_status = SqlText ''pending'',
                   r_server_id = SqlNull, r_last_synced_at = SqlNull, r_version = SqlNull\<rparr>]
   \<and> sync_queue (snd (createTask e taskData w))
     = sync_queue w @ [\<lparr>q_id = uuidv4 e (Suc (Suc (tick w))), q_task_id = uuidv4 e (Suc (tick w)),
                        q_operation = Create, q_data = fst (createTask e taskData w),
                        q_created_at = clock e (Suc (Suc (Suc (tick w)))), q_retry_count = 0,
                        q_error_message = None\<rparr>]"
  by (simp add: createTask_def addToSyncQueue_def Let_def flag_def)

lemma deleteTask_persists:
  assumes "getTask ident w = Some existing"
  shows "fst (deleteTask e ident w)
     \<and> map r_id (tasks (snd (deleteTask e ident w))) = map r_id (tasks w)
     \<and> (\<forall>r \<in> set (tasks (snd (deleteTask e ident w))). r_id r = SqlText ident \<longrightarrow>
           r_is_deleted r = SqlInt 1 \<and> r_sync_status r = SqlText ''pending''
           \<and> r_updated_at r = SqlTime (clock e (tick w)))
     \<and> sync_queue (snd (deleteTask e ident w))
        = sync_queue w @ [\<lparr>q_id = uuidv4 e (Suc (tick w)), q_task_id = ident, q_operation = Delete,
                           q_data = existing\<lparr>t_is_deleted := True, t_updated_at := clock e (tick w)\<rparr>,
                           q_created_at = clock e (Suc (Suc (tick w))), q_retry_count = 0,
                           q_error_message = None\<rparr>]"
  using assms by (auto simp: deleteTask_def addToSyncQueue_def Let_def)

section \<open>Entries of one task in a failing batch\<close>






end
